theory Spec2Isabelle
  imports Complex_Main "HOL-Library.List_Lexorder"
begin

section \<open>Texts and exceptions\<close>

text \<open>
  A Python \<^verbatim>\<open>str\<close> is the list of its code points, so that slicing and \<^verbatim>\<open>len\<close> count
  what Python counts. \<open>lit\<close> reads an ASCII literal; the accented letters of the source's
  French messages are written by code point (232, 233 and 234 are e with a grave, an
  acute and a circumflex accent, 202 is E with a circumflex; 10 is the line feed, 34 the
  double quote, 39 the apostrophe).
\<close>

type_synonym pystr = "nat list"

definition lit :: "string \<Rightarrow> pystr" where
  "lit s = map of_char s"

text \<open>\<^verbatim>\<open>sep.join(parts)\<close>.\<close>

fun py_join :: "pystr \<Rightarrow> pystr list \<Rightarrow> pystr" where
  "py_join sep [] = []"
| "py_join sep [x] = x"
| "py_join sep (x # y # ys) = x @ sep @ py_join sep (y # ys)"

text \<open>
  The exceptions the code raises or lets through: FastAPI's \<^verbatim>\<open>HTTPException\<close> with its
  status code and detail (a subclass of \<^verbatim>\<open>Exception\<close>), and any other instance of
  \<^verbatim>\<open>Exception\<close> with the text \<^verbatim>\<open>str(e)\<close> gives. The interpreter's own signals
  (\<^verbatim>\<open>KeyboardInterrupt\<close>, \<^verbatim>\<open>SystemExit\<close>), which \<^verbatim>\<open>except Exception\<close> does not catch,
  are outside the model.
\<close>

datatype exn = HTTPException nat pystr | Exception pystr

section \<open>Data model\<close>

text \<open>
  The dictionaries the layers pass around have fixed keys, written in dict literals, so
  each shape is a record. \<open>entry\<close> has the five keys of an article summary
  (\<^verbatim>\<open>agents.py\<close>, lines 286-292); \<open>paper\<close> adds \<^verbatim>\<open>entry_id\<close> and \<^verbatim>\<open>categories\<close>, the seven
  keys \<^verbatim>\<open>tools/arxiv_tool.py\<close> writes; \<open>article\<close> adds the key \<^verbatim>\<open>primary_category\<close>,
  which only the MCP server writes: \<open>None\<close> stands for a dictionary without that key.
  \<^verbatim>\<open>pdf_url\<close> is optional in the arXiv library (\<open>None\<close> is Python's \<^verbatim>\<open>None\<close>).
\<close>

record entry =
  title :: pystr
  authors :: "pystr list"
  summary :: pystr
  published :: pystr
  pdf_url :: "pystr option"

record paper = entry +
  entry_id :: pystr
  categories :: "pystr list"

record article = paper +
  primary_category :: "pystr option"

text \<open>
  A row of the table \<^verbatim>\<open>articles\<close> (\<^verbatim>\<open>tools/database.py\<close>, lines 39-53). The columns
  \<^verbatim>\<open>authors\<close> and \<^verbatim>\<open>categories\<close> hold \<^verbatim>\<open>json.dumps\<close> of a list and are read back with
  \<^verbatim>\<open>json.loads\<close>: the row holds the list itself. The surrogate key \<^verbatim>\<open>id\<close> and
  \<^verbatim>\<open>created_at\<close> are assigned by the engine and never read by the code.
\<close>

record row = paper +
  row_keyword :: pystr
  row_embedding :: "real list"

text \<open>A row returned by the similarity query, with its \<^verbatim>\<open>similarity\<close> column.\<close>

record hit = paper +
  similarity :: real

text \<open>What \<^verbatim>\<open>arxiv.Search(...).results()\<close> yields: the fields of the library's
  \<^verbatim>\<open>Result\<close> that the code reads. \<open>result_authors\<close> are the authors' names and
  \<open>result_published\<close> is \<^verbatim>\<open>result.published.strftime('%Y-%m-%d')\<close>.\<close>

record arxiv_result =
  result_title :: pystr
  result_authors :: "pystr list"
  result_summary :: pystr
  result_published :: pystr
  result_pdf_url :: "pystr option"
  result_entry_id :: pystr
  result_categories :: "pystr list"
  result_primary_category :: pystr

text \<open>
  The two agents that run tasks (\<^verbatim>\<open>create_summarizer_agent\<close>,
  \<^verbatim>\<open>create_synthesizer_agent\<close>): their role, goal and backstory are constant texts, so
  an agent is its name. A task is what \<^verbatim>\<open>Task(description, agent, expected_output)\<close>
  holds.
\<close>

datatype agent = SummarizerAgent | SynthesizerAgent

record task =
  description :: pystr
  agent :: agent
  expected_output :: pystr

text \<open>What \<^verbatim>\<open>PDFGenerator.generate_report\<close> is given to lay out on the pages.\<close>

record report =
  report_keyword :: pystr
  report_synthesis :: pystr
  report_articles :: "entry list"

section \<open>The outside world\<close>

text \<open>
  The statements the code sends to PostgreSQL, and how one database operation
  (connect, execute, commit or fetch, close) can end: \<open>Done\<close>; an exception before
  anything was committed; or an exception after the commit (on closing).
\<close>

datatype stmt =
    CreateSchema
  | Insert row
  | SelectSimilar "real list" pystr int
  | SelectByKeyword pystr
  | DeleteByKeyword pystr

datatype outcome = Done | FailBefore exn | FailAfter exn

text \<open>Every call that leaves the process, in the order it was made.\<close>

datatype event =
    Db stmt
  | Embed pystr
  | Search pystr int
  | Kickoff task
  | NewClients
  | Makedirs pystr
  | Build pystr report
  | McpSession
  | McpCallTool

text \<open>
  The collaborators the code calls but does not contain: each answers from the history
  of calls so far and the request, and may raise. \<open>distance\<close> is pgvector's cosine
  distance \<^verbatim>\<open><=>\<close>; \<open>now\<close> is \<^verbatim>\<open>datetime.now().strftime('%Y%m%d_%H%M%S')\<close>;
  \<open>http_exc_str\<close> is \<^verbatim>\<open>str\<close> of an \<^verbatim>\<open>HTTPException\<close>.
\<close>

record env =
  db_api :: "event list \<Rightarrow> stmt \<Rightarrow> outcome"
  distance :: "real list \<Rightarrow> real list \<Rightarrow> real"
  embed_api :: "event list \<Rightarrow> pystr \<Rightarrow> exn + real list"
  arxiv_api :: "event list \<Rightarrow> pystr \<Rightarrow> int \<Rightarrow> exn + arxiv_result list"
  llm_api :: "event list \<Rightarrow> task \<Rightarrow> exn + pystr"
  clients_api :: "event list \<Rightarrow> exn option"
  makedirs_api :: "event list \<Rightarrow> pystr \<Rightarrow> exn option"
  build_api :: "event list \<Rightarrow> pystr \<Rightarrow> report \<Rightarrow> exn option"
  now :: "event list \<Rightarrow> pystr"
  mcp_session_api :: "event list \<Rightarrow> outcome"
  mcp_call_api :: "event list \<Rightarrow> exn option"
  http_exc_str :: "nat \<Rightarrow> pystr \<Rightarrow> pystr"
  use_mcp_arxiv :: bool

text \<open>
  The state outside the process: the calls made, the table \<^verbatim>\<open>articles\<close> (\<open>None\<close> while
  it does not exist) and the report files written.
\<close>

record world =
  trace :: "event list"
  table :: "row list option"
  files :: "(pystr \<times> report) list"

text \<open>
  A Python call: it returns a value or raises, and changes the world either way.
  \<open>try_io body handler\<close> is \<^verbatim>\<open>try: body except Exception as e: handler\<close>.
\<close>

type_synonym 'a io = "world \<Rightarrow> (exn + 'a) \<times> world"

definition return_io :: "'a \<Rightarrow> 'a io" where
  "return_io x w = (Inr x, w)"

definition raise_io :: "exn \<Rightarrow> 'a io" where
  "raise_io e w = (Inl e, w)"

definition bind_io :: "'a io \<Rightarrow> ('a \<Rightarrow> 'b io) \<Rightarrow> 'b io" where
  "bind_io m f w = (case m w of (Inl e, w') \<Rightarrow> (Inl e, w') | (Inr x, w') \<Rightarrow> f x w')"

definition try_io :: "'a io \<Rightarrow> (exn \<Rightarrow> 'a io) \<Rightarrow> 'a io" where
  "try_io m h w = (case m w of (Inl e, w') \<Rightarrow> h e w' | (Inr x, w') \<Rightarrow> (Inr x, w'))"

definition log_event :: "event \<Rightarrow> world \<Rightarrow> world" where
  "log_event ev w = w\<lparr>trace := trace w @ [ev]\<rparr>"

section \<open>tools/database.py\<close>

text \<open>
  What each statement does to the table once the engine runs it. A statement on a table
  that does not exist raises. The similarity query keeps the rows of the keyword, orders
  them by distance to the query and keeps \<^verbatim>\<open>LIMIT\<close> of them (a negative limit is an
  error, and so is the distance between two vectors that differ in length).
  \<^verbatim>\<open>ORDER BY published DESC\<close> compares code points. Rows that the order does not
  separate come back in the order they were stored.
\<close>

definition undefined_table :: exn where
  "undefined_table = Exception (lit ''UndefinedTable'')"

definition invalid_limit :: exn where
  "invalid_limit = Exception (lit ''InvalidRowCountInLimitClause'')"

definition sem_create :: "row list option \<Rightarrow> exn + row list option \<times> unit" where
  "sem_create t = Inr (case t of None \<Rightarrow> Some [] | Some rows \<Rightarrow> Some rows, ())"

text \<open>
  The column types of the \<^verbatim>\<open>CREATE TABLE\<close> (lines 39-53). A \<^verbatim>\<open>VARCHAR(n)\<close> column takes
  a text of at most \<open>n\<close> characters, and a longer one only when the characters beyond
  \<open>n\<close> are all spaces, which are cut off; \<^verbatim>\<open>entry_id\<close> and \<^verbatim>\<open>keyword\<close> are
  \<^verbatim>\<open>VARCHAR(255)\<close>, \<^verbatim>\<open>published\<close> is \<^verbatim>\<open>VARCHAR(20)\<close>. The \<^verbatim>\<open>embedding\<close> column is
  \<^verbatim>\<open>vector(1536)\<close>. The columns declared \<^verbatim>\<open>NOT NULL\<close> are texts in every row here. The
  engine checks the values of an \<^verbatim>\<open>INSERT\<close> against the column types before it looks
  for a conflict, and raises when one does not fit. Any other refusal of a value by the
  driver or the engine (a NUL character in a text, a component beyond the range of a
  4-byte float) is a failure of \<open>db_api\<close>, which is given the statement.
\<close>

definition fits :: "nat \<Rightarrow> pystr \<Rightarrow> bool" where
  "fits n s = (length s \<le> n \<or> list_all (\<lambda>c. c = 32) (drop n s))"

definition accepted :: "row \<Rightarrow> bool" where
  "accepted r =
     (fits 255 (entry_id r) \<and> fits 20 (published r) \<and> fits 255 (row_keyword r) \<and>
      length (row_embedding r) = 1536)"

definition data_error :: exn where
  "data_error = Exception (lit ''DataError'')"

definition stored_form :: "row \<Rightarrow> exn + row" where
  "stored_form r =
     (if accepted r
      then Inr (r\<lparr>entry_id := take 255 (entry_id r), published := take 20 (published r),
                   row_keyword := take 255 (row_keyword r)\<rparr>)
      else Inl data_error)"

text \<open>\<^verbatim>\<open>INSERT ... ON CONFLICT (entry_id) DO NOTHING\<close>: a row that fits the columns is
  added, unless a row of the table has its \<^verbatim>\<open>entry_id\<close>: then the table stays as it is.\<close>

definition sem_insert :: "row \<Rightarrow> row list option \<Rightarrow> exn + row list option \<times> unit" where
  "sem_insert r t =
     (case t of
        None \<Rightarrow> Inl undefined_table
      | Some rows \<Rightarrow>
          (case stored_form r of
             Inl e \<Rightarrow> Inl e
           | Inr r' \<Rightarrow>
               Inr (Some (if entry_id r' \<in> set (map entry_id rows) then rows
                          else rows @ [r']), ())))"

definition to_hit :: "env \<Rightarrow> real list \<Rightarrow> row \<Rightarrow> hit" where
  "to_hit env q r =
     \<lparr>title = title r, authors = authors r, summary = summary r, published = published r,
      pdf_url = pdf_url r, entry_id = entry_id r, categories = categories r,
      similarity = 1 - distance env (row_embedding r) q\<rparr>"

definition sem_similar ::
  "env \<Rightarrow> real list \<Rightarrow> pystr \<Rightarrow> int \<Rightarrow> row list option \<Rightarrow> exn + row list option \<times> hit list" where
  "sem_similar env q kw k t =
     (case t of
        None \<Rightarrow> Inl undefined_table
      | Some rows \<Rightarrow>
          if k < 0 then Inl invalid_limit
          else if list_ex (\<lambda>r. length (row_embedding r) \<noteq> length q)
                    (filter (\<lambda>r. row_keyword r = kw) rows)
          then Inl data_error
          else Inr (Some rows,
                 map (to_hit env q)
                   (take (nat k)
                     (sort_key (\<lambda>r. distance env (row_embedding r) q)
                       (filter (\<lambda>r. row_keyword r = kw) rows)))))"

definition to_paper :: "row \<Rightarrow> paper" where
  "to_paper r =
     \<lparr>title = title r, authors = authors r, summary = summary r, published = published r,
      pdf_url = pdf_url r, entry_id = entry_id r, categories = categories r\<rparr>"

definition sem_by_keyword ::
  "pystr \<Rightarrow> row list option \<Rightarrow> exn + row list option \<times> paper list" where
  "sem_by_keyword kw t =
     (case t of
        None \<Rightarrow> Inl undefined_table
      | Some rows \<Rightarrow>
          Inr (Some rows,
            map to_paper
              (rev (sort_key published (rev (filter (\<lambda>r. row_keyword r = kw) rows))))))"

definition sem_delete :: "pystr \<Rightarrow> row list option \<Rightarrow> exn + row list option \<times> unit" where
  "sem_delete kw t =
     (case t of
        None \<Rightarrow> Inl undefined_table
      | Some rows \<Rightarrow> Inr (Some (filter (\<lambda>r. row_keyword r \<noteq> kw) rows), ()))"

text \<open>
  One database operation as every method writes it: \<^verbatim>\<open>_get_connection\<close>, a cursor,
  \<^verbatim>\<open>execute\<close>, \<^verbatim>\<open>commit\<close> or \<^verbatim>\<open>fetchall\<close>, and the two \<^verbatim>\<open>close\<close> calls. It raises when
  the statement does not fit the table, and when the connection or the engine fails for
  another reason (\<open>db_api\<close>), before or after the commit.
\<close>

definition db_run ::
  "env \<Rightarrow> stmt \<Rightarrow> (row list option \<Rightarrow> exn + row list option \<times> 'a) \<Rightarrow> 'a io" where
  "db_run env s sem w =
     (let w1 = log_event (Db s) w in
      case db_api env (trace w) s of
        FailBefore e \<Rightarrow> (Inl e, w1)
      | FailAfter e \<Rightarrow>
          (case sem (table w) of
             Inl e' \<Rightarrow> (Inl e', w1)
           | Inr (t, r) \<Rightarrow> (Inl e, w1\<lparr>table := t\<rparr>))
      | Done \<Rightarrow>
          (case sem (table w) of
             Inl e' \<Rightarrow> (Inl e', w1)
           | Inr (t, r) \<Rightarrow> (Inr r, w1\<lparr>table := t\<rparr>)))"

text \<open>\<^verbatim>\<open>_init_database\<close> (lines 29-67): any exception is printed and dropped.\<close>

definition init_database :: "env \<Rightarrow> unit io" where
  "init_database env =
     try_io (db_run env CreateSchema sem_create) (\<lambda>e. return_io ())"

text \<open>\<^verbatim>\<open>DatabaseManager.__init__\<close> (lines 14-23): reads the connection parameters from the
  environment and initialises the schema.\<close>

definition DatabaseManager :: "env \<Rightarrow> unit io" where
  "DatabaseManager env = init_database env"

text \<open>\<^verbatim>\<open>insert_article\<close> (lines 69-109).\<close>

definition insert_row :: "article \<Rightarrow> pystr \<Rightarrow> real list \<Rightarrow> row" where
  "insert_row a kw emb =
     \<lparr>title = title a, authors = authors a, summary = summary a, published = published a,
      pdf_url = pdf_url a, entry_id = entry_id a, categories = categories a,
      row_keyword = kw, row_embedding = emb\<rparr>"

definition insert_article :: "env \<Rightarrow> article \<Rightarrow> pystr \<Rightarrow> real list \<Rightarrow> bool io" where
  "insert_article env a kw emb =
     try_io
       (bind_io (db_run env (Insert (insert_row a kw emb)) (sem_insert (insert_row a kw emb)))
          (\<lambda>_. return_io True))
       (\<lambda>e. return_io False)"

text \<open>\<^verbatim>\<open>search_similar_articles\<close> (lines 111-154).\<close>

definition search_similar_articles ::
  "env \<Rightarrow> real list \<Rightarrow> pystr \<Rightarrow> int \<Rightarrow> hit list io" where
  "search_similar_articles env q kw limit =
     try_io
       (db_run env (SelectSimilar q kw limit) (sem_similar env q kw limit))
       (\<lambda>e. return_io [])"

text \<open>\<^verbatim>\<open>get_all_articles_by_keyword\<close> (lines 156-193).\<close>

definition get_all_articles_by_keyword :: "env \<Rightarrow> pystr \<Rightarrow> paper list io" where
  "get_all_articles_by_keyword env kw =
     try_io
       (db_run env (SelectByKeyword kw) (sem_by_keyword kw))
       (\<lambda>e. return_io [])"

text \<open>\<^verbatim>\<open>clear_articles_by_keyword\<close> (lines 195-218).\<close>

definition clear_articles_by_keyword :: "env \<Rightarrow> pystr \<Rightarrow> bool io" where
  "clear_articles_by_keyword env kw =
     try_io
       (bind_io (db_run env (DeleteByKeyword kw) (sem_delete kw)) (\<lambda>_. return_io True))
       (\<lambda>e. return_io False)"

section \<open>tools/arxiv_tool.py\<close>

text \<open>\<^verbatim>\<open>arxiv.Search(query, max_results, sort_by, sort_order)\<close> and the iteration over
  its \<^verbatim>\<open>results()\<close>.\<close>

definition arxiv_search :: "env \<Rightarrow> pystr \<Rightarrow> int \<Rightarrow> arxiv_result list io" where
  "arxiv_search env query max_results w =
     (arxiv_api env (trace w) query max_results, log_event (Search query max_results) w)"

text \<open>The dictionary of lines 30-38: seven keys.\<close>

definition direct_article :: "arxiv_result \<Rightarrow> article" where
  "direct_article r =
     \<lparr>title = result_title r, authors = result_authors r, summary = result_summary r,
      published = result_published r, pdf_url = result_pdf_url r,
      entry_id = result_entry_id r, categories = result_categories r,
      primary_category = None\<rparr>"

text \<open>\<^verbatim>\<open>search_arxiv\<close> (lines 8-45): any exception gives the empty list.\<close>

definition search_arxiv :: "env \<Rightarrow> pystr \<Rightarrow> int \<Rightarrow> article list io" where
  "search_arxiv env keyword max_results =
     try_io
       (bind_io (arxiv_search env keyword max_results)
          (\<lambda>results. return_io (map direct_article results)))
       (\<lambda>e. return_io [])"

text \<open>The keys of an article dictionary, in the order they are written.\<close>

definition article_keys :: "article \<Rightarrow> string list" where
  "article_keys a =
     [''title'', ''authors'', ''summary'', ''published'', ''pdf_url'', ''entry_id'',
      ''categories'']
     @ (case primary_category a of None \<Rightarrow> [] | Some c \<Rightarrow> [''primary_category''])"

section \<open>mcp_servers/arxiv_server.py and tools/arxiv_mcp_client.py\<close>

text \<open>
  The arguments of the tool call (\<open>None\<close> for a key that is absent) and the JSON object
  the server answers with: \<^verbatim>\<open>{"success": True, "keyword", "count", "articles"}\<close> or
  \<^verbatim>\<open>{"error", "success": False}\<close>. The client parses the text the server dumped, so
  the reply is the object itself.
\<close>

record tool_arguments =
  arg_keyword :: "pystr option"
  arg_max_results :: "int option"

datatype tool_reply = ReplySuccess pystr nat "article list" | ReplyError pystr

text \<open>
  The text of the result the client receives: the JSON object the handler dumped, or a
  message of the server library that is not JSON. The library checks the arguments of a
  call against the \<^verbatim>\<open>inputSchema\<close> the tool declares (lines 33-49: \<^verbatim>\<open>keyword\<close> required,
  \<^verbatim>\<open>max_results\<close> an integer from 1 to 50) before it runs the handler, and answers a
  call that fails the check, or a handler that raises, with an error message.
\<close>

datatype tool_text = JsonText tool_reply | MessageText

definition valid_arguments :: "tool_arguments \<Rightarrow> bool" where
  "valid_arguments arguments =
     (arg_keyword arguments \<noteq> None \<and>
      (case arg_max_results arguments of None \<Rightarrow> True | Some n \<Rightarrow> 1 \<le> n \<and> n \<le> 50))"

definition json_decode_error :: exn where
  "json_decode_error = Exception (lit ''JSONDecodeError'')"

definition py_str_exc :: "env \<Rightarrow> exn \<Rightarrow> pystr" where
  "py_str_exc env e =
     (case e of HTTPException code detail \<Rightarrow> http_exc_str env code detail | Exception m \<Rightarrow> m)"

text \<open>The dictionary of lines 105-114: the seven keys and \<^verbatim>\<open>primary_category\<close>.\<close>

definition mcp_article :: "arxiv_result \<Rightarrow> article" where
  "mcp_article r =
     \<lparr>title = result_title r, authors = result_authors r, summary = result_summary r,
      published = result_published r, pdf_url = result_pdf_url r,
      entry_id = result_entry_id r, categories = result_categories r,
      primary_category = Some (result_primary_category r)\<rparr>"

definition keyword_required :: pystr where
  "keyword_required =
     lit ''Le param'' @ [232] @ lit ''tre '' @ [39] @ lit ''keyword'' @ [39] @ lit '' est requis''"

text \<open>\<^verbatim>\<open>search_arxiv_tool\<close> (lines 72-136).\<close>

definition search_arxiv_tool :: "env \<Rightarrow> tool_arguments \<Rightarrow> tool_reply io" where
  "search_arxiv_tool env arguments =
     (let max_results = (case arg_max_results arguments of None \<Rightarrow> 10 | Some n \<Rightarrow> n) in
      case arg_keyword arguments of
        None \<Rightarrow> return_io (ReplyError keyword_required)
      | Some keyword \<Rightarrow>
          if keyword = [] then return_io (ReplyError keyword_required)
          else
            try_io
              (bind_io (arxiv_search env keyword (min max_results 50))
                 (\<lambda>results.
                    let articles = map mcp_article results
                    in return_io (ReplySuccess keyword (length articles) articles)))
              (\<lambda>e. return_io
                 (ReplyError (lit ''Erreur lors de la recherche arXiv: '' @ py_str_exc env e))))"

text \<open>\<^verbatim>\<open>session.call_tool("search_arxiv", arguments)\<close>: the transport raises; or the
  server library refuses the arguments; or the server's \<^verbatim>\<open>call_tool\<close> (lines 55-69) runs
  \<^verbatim>\<open>search_arxiv_tool\<close> and its reply comes back.\<close>

definition call_tool :: "env \<Rightarrow> tool_arguments \<Rightarrow> tool_text io" where
  "call_tool env arguments w =
     (case mcp_call_api env (trace w) of
        Some e \<Rightarrow> (Inl e, log_event McpCallTool w)
      | None \<Rightarrow>
          if valid_arguments arguments
          then (case search_arxiv_tool env arguments (log_event McpCallTool w) of
                  (Inl e, w') \<Rightarrow> (Inr MessageText, w')
                | (Inr reply, w') \<Rightarrow> (Inr (JsonText reply), w'))
          else (Inr MessageText, log_event McpCallTool w))"

text \<open>\<^verbatim>\<open>ArxivMCPClient.search_arxiv\<close> (lines 51-90): \<^verbatim>\<open>json.loads\<close> raises on a text that
  is not JSON, inside the \<^verbatim>\<open>try\<close>.\<close>

definition client_search_arxiv :: "env \<Rightarrow> pystr \<Rightarrow> int \<Rightarrow> article list io" where
  "client_search_arxiv env keyword max_results =
     try_io
       (bind_io
          (call_tool env \<lparr>arg_keyword = Some keyword, arg_max_results = Some max_results\<rparr>)
          (\<lambda>content. case content of
                        MessageText \<Rightarrow> raise_io json_decode_error
                      | JsonText (ReplySuccess k n articles) \<Rightarrow> return_io articles
                      | JsonText (ReplyError msg) \<Rightarrow> return_io []))
       (\<lambda>e. return_io [])"

text \<open>
  \<^verbatim>\<open>search_arxiv_sync\<close> (lines 93-123): the session is opened, the search runs and the
  session is closed, in a worker thread awaited for 120 seconds. An exception of
  \<^verbatim>\<open>connect\<close> (\<open>FailBefore\<close>), or of \<^verbatim>\<open>disconnect\<close> and of the timeout (\<open>FailAfter\<close>),
  is not caught.
\<close>

definition search_arxiv_sync :: "env \<Rightarrow> pystr \<Rightarrow> int \<Rightarrow> article list io" where
  "search_arxiv_sync env keyword max_results w =
     (case mcp_session_api env (trace w) of
        FailBefore e \<Rightarrow> (Inl e, log_event McpSession w)
      | FailAfter e \<Rightarrow>
          (Inl e, snd (client_search_arxiv env keyword max_results (log_event McpSession w)))
      | Done \<Rightarrow> client_search_arxiv env keyword max_results (log_event McpSession w))"

section \<open>tools/rag_tool.py\<close>

definition embed_query :: "env \<Rightarrow> pystr \<Rightarrow> real list io" where
  "embed_query env s w = (embed_api env (trace w) s, log_event (Embed s) w)"

text \<open>Constructing a client of a library (\<^verbatim>\<open>OpenAIEmbeddings\<close>, \<^verbatim>\<open>ChatOpenAI\<close>).\<close>

definition new_client :: "env \<Rightarrow> unit io" where
  "new_client env w =
     (case clients_api env (trace w) of None \<Rightarrow> Inr () | Some e \<Rightarrow> Inl e,
      log_event NewClients w)"

text \<open>\<^verbatim>\<open>RAGTool.__init__\<close> (lines 13-20).\<close>

definition RAGTool :: "env \<Rightarrow> unit io" where
  "RAGTool env = bind_io (new_client env) (\<lambda>_. DatabaseManager env)"

text \<open>\<^verbatim>\<open>embed_and_store_article\<close> (lines 22-45).\<close>

definition embed_and_store_article :: "env \<Rightarrow> article \<Rightarrow> pystr \<Rightarrow> bool io" where
  "embed_and_store_article env a keyword =
     try_io
       (bind_io (embed_query env (title a @ [10, 10] @ summary a))
          (\<lambda>embedding. insert_article env a keyword embedding))
       (\<lambda>e. return_io False)"

text \<open>\<^verbatim>\<open>retrieve_relevant_articles\<close> (lines 47-74).\<close>

definition retrieve_relevant_articles :: "env \<Rightarrow> pystr \<Rightarrow> pystr \<Rightarrow> int \<Rightarrow> hit list io" where
  "retrieve_relevant_articles env query keyword top_k =
     try_io
       (bind_io (embed_query env query)
          (\<lambda>query_embedding. search_similar_articles env query_embedding keyword top_k))
       (\<lambda>e. return_io [])"

text \<open>\<^verbatim>\<open>get_context_for_summary\<close> (lines 76-103).\<close>

definition context_part :: "hit \<Rightarrow> pystr" where
  "context_part h =
     lit ''Titre: '' @ title h @ [10] @ lit ''R'' @ [233] @ lit ''sum'' @ [233] @ lit '': ''
     @ summary h @ [10]"

definition context_separator :: pystr where
  "context_separator = [10] @ lit ''---'' @ [10]"

definition get_context_for_summary :: "env \<Rightarrow> pystr \<Rightarrow> pystr \<Rightarrow> pystr io" where
  "get_context_for_summary env article_title keyword =
     try_io
       (bind_io (retrieve_relevant_articles env article_title keyword 3)
          (\<lambda>articles. return_io (py_join context_separator (map context_part articles))))
       (\<lambda>e. return_io [])"

text \<open>\<^verbatim>\<open>store_multiple_articles\<close> (lines 105-121): the loop, with its counter.\<close>

fun store_loop :: "env \<Rightarrow> pystr \<Rightarrow> article list \<Rightarrow> nat \<Rightarrow> nat io" where
  "store_loop env keyword [] success_count w = (Inr success_count, w)"
| "store_loop env keyword (a # as) success_count w =
     (case embed_and_store_article env a keyword w of
        (Inl e, w') \<Rightarrow> (Inl e, w')
      | (Inr stored, w') \<Rightarrow>
          store_loop env keyword as (if stored then success_count + 1 else success_count) w')"

definition store_multiple_articles :: "env \<Rightarrow> article list \<Rightarrow> pystr \<Rightarrow> nat io" where
  "store_multiple_articles env articles keyword = store_loop env keyword articles 0"

section \<open>tools/pdf_generator.py\<close>

text \<open>
  \<^verbatim>\<open>PDFGenerator.generate_report\<close> (lines 65-116): the pages are laid out and the file is
  built inside one \<^verbatim>\<open>try\<close>; on any exception the empty path is returned. The layout of
  the pages is not modelled: the file written is the content it was given.
\<close>

definition build :: "env \<Rightarrow> pystr \<Rightarrow> report \<Rightarrow> pystr io" where
  "build env output_path doc w =
     (case build_api env (trace w) output_path doc of
        Some e \<Rightarrow> (Inl e, log_event (Build output_path doc) w)
      | None \<Rightarrow>
          (Inr output_path,
           (log_event (Build output_path doc) w)\<lparr>files := (output_path, doc) # files w\<rparr>))"

definition generate_report :: "env \<Rightarrow> pystr \<Rightarrow> pystr \<Rightarrow> entry list \<Rightarrow> pystr \<Rightarrow> pystr io" where
  "generate_report env keyword global_summary article_summaries output_path =
     try_io
       (build env output_path
          \<lparr>report_keyword = keyword, report_synthesis = global_summary,
           report_articles = article_summaries\<rparr>)
       (\<lambda>e. return_io [])"

text \<open>\<^verbatim>\<open>os.makedirs(output_dir, exist_ok=True)\<close>.\<close>

definition makedirs :: "env \<Rightarrow> pystr \<Rightarrow> unit io" where
  "makedirs env output_dir w =
     (case makedirs_api env (trace w) output_dir of None \<Rightarrow> Inr () | Some e \<Rightarrow> Inl e,
      log_event (Makedirs output_dir) w)"

text \<open>\<^verbatim>\<open>keyword.replace(' ', '_')\<close>, and \<^verbatim>\<open>os.path.join\<close> of a directory and a
  file name that does not start with a slash.\<close>

definition replace_spaces :: "pystr \<Rightarrow> pystr" where
  "replace_spaces s = map (\<lambda>c. if c = 32 then 95 else c) s"

definition path_join :: "pystr \<Rightarrow> pystr \<Rightarrow> pystr" where
  "path_join dir name = (if dir = [] \<or> last dir = 47 then dir @ name else dir @ [47] @ name)"

text \<open>\<^verbatim>\<open>generate_pdf_report\<close> (lines 260-288): \<^verbatim>\<open>os.makedirs\<close> is outside the \<^verbatim>\<open>try\<close>.\<close>

definition generate_pdf_report ::
  "env \<Rightarrow> pystr \<Rightarrow> pystr \<Rightarrow> entry list \<Rightarrow> pystr \<Rightarrow> pystr io" where
  "generate_pdf_report env keyword global_summary article_summaries output_dir =
     bind_io (makedirs env output_dir)
       (\<lambda>_ w.
          let timestamp = now env (trace w);
              filename = lit ''rapport_veille_'' @ replace_spaces keyword @ lit ''_''
                         @ timestamp @ lit ''.pdf'';
              output_path = path_join output_dir filename
          in generate_report env keyword global_summary article_summaries output_path w)"

section \<open>agents.py\<close>

text \<open>The instance state of \<^verbatim>\<open>VeilleScientifiqueCrew\<close> (lines 36-50).\<close>

record crew =
  self_keyword :: pystr
  self_max_articles :: int
  self_articles :: "article list"
  self_article_summaries :: "entry list"

text \<open>\<^verbatim>\<open>VeilleScientifiqueCrew.__init__\<close> (lines 28-50).\<close>

definition VeilleScientifiqueCrew :: "env \<Rightarrow> pystr \<Rightarrow> int \<Rightarrow> crew io" where
  "VeilleScientifiqueCrew env keyword max_articles =
     bind_io (RAGTool env)
       (\<lambda>_. bind_io (new_client env)
          (\<lambda>_. return_io
             \<lparr>self_keyword = keyword, self_max_articles = max_articles,
              self_articles = [], self_article_summaries = []\<rparr>))"

text \<open>\<^verbatim>\<open>Crew(agents, tasks, process, verbose).kickoff()\<close> and \<^verbatim>\<open>str\<close> of its result.\<close>

definition kickoff :: "env \<Rightarrow> task \<Rightarrow> pystr io" where
  "kickoff env t w = (llm_api env (trace w) t, log_event (Kickoff t) w)"

text \<open>The search function chosen by \<^verbatim>\<open>USE_MCP_ARXIV\<close> (lines 15-22).\<close>

definition search :: "env \<Rightarrow> pystr \<Rightarrow> int \<Rightarrow> article list io" where
  "search env keyword max_results =
     (if use_mcp_arxiv env then search_arxiv_sync env keyword max_results
      else search_arxiv env keyword max_results)"

text \<open>\<^verbatim>\<open>execute_collection\<close> (lines 211-234).\<close>

definition execute_collection :: "env \<Rightarrow> crew \<Rightarrow> (article list \<times> crew) io" where
  "execute_collection env self =
     bind_io (search env (self_keyword self) (self_max_articles self))
       (\<lambda>found.
          let self1 = self\<lparr>self_articles := found\<rparr> in
          if found = [] then return_io ([], self1)
          else bind_io (store_multiple_articles env found (self_keyword self1))
                 (\<lambda>stored_count. return_io (found, self1)))"

text \<open>\<^verbatim>\<open>execute_summarization\<close> (lines 236-295): the task of one article, the body of
  the loop, the loop and the method.\<close>

definition summary_task :: "article \<Rightarrow> pystr \<Rightarrow> task" where
  "summary_task a context =
     \<lparr>description =
        lit ''R'' @ [233] @ lit ''sumer l'' @ [39]
        @ lit ''article suivant en 5-8 phrases bas'' @ [233]
        @ lit ''es UNIQUEMENT sur le contenu fourni :'' @ [10, 10] @ lit ''Titre : ''
        @ title a
        @ [10] @ lit ''R'' @ [233] @ lit ''sum'' @ [233] @ lit '' original : ''
        @ summary a
        @ [10, 10] @ lit ''Contexte additionnel (si pertinent) :'' @ [10]
        @ context
        @ [10, 10] @ lit ''R'' @ [232] @ lit ''gles strictes :'' @ [10]
        @ lit ''- Ne jamais inventer ou ajouter d'' @ [39] @ lit ''informations'' @ [10]
        @ lit ''- Rester fid'' @ [232] @ lit ''le au contenu de l'' @ [39] @ lit ''article''
        @ [10] @ lit ''- '' @ [202] @ lit ''tre clair et concis'',
      agent = SummarizerAgent,
      expected_output =
        lit ''Un r'' @ [233] @ lit ''sum'' @ [233] @ lit '' d'' @ [233] @ lit ''taill'' @ [233]
        @ lit '' de 5-8 phrases''\<rparr>"

definition summarize_article :: "env \<Rightarrow> article \<Rightarrow> crew \<Rightarrow> crew io" where
  "summarize_article env a self =
     bind_io (get_context_for_summary env (title a) (self_keyword self))
       (\<lambda>context.
          bind_io (kickoff env (summary_task a context))
            (\<lambda>result.
               return_io
                 (self\<lparr>self_article_summaries :=
                    self_article_summaries self
                    @ [\<lparr>title = title a, authors = authors a, summary = result,
                        published = published a, pdf_url = pdf_url a\<rparr>]\<rparr>)))"

fun summarize_loop :: "env \<Rightarrow> article list \<Rightarrow> crew \<Rightarrow> crew io" where
  "summarize_loop env [] self w = (Inr self, w)"
| "summarize_loop env (a # as) self w =
     (case summarize_article env a self w of
        (Inl e, w') \<Rightarrow> (Inl e, w')
      | (Inr self', w') \<Rightarrow> summarize_loop env as self' w')"

definition execute_summarization :: "env \<Rightarrow> crew \<Rightarrow> (entry list \<times> crew) io" where
  "execute_summarization env self =
     (if self_articles self = [] then return_io ([], self)
      else bind_io (summarize_loop env (self_articles self) self)
             (\<lambda>self'. return_io (self_article_summaries self', self')))"

text \<open>\<^verbatim>\<open>execute_quick_summary\<close> (lines 297-338).\<close>

definition no_article_for_keyword :: pystr where
  "no_article_for_keyword =
     lit ''Aucun article trouv'' @ [233] @ lit '' pour ce mot-cl'' @ [233] @ lit ''.''"

definition quick_line :: "article \<Rightarrow> pystr" where
  "quick_line a = lit ''- '' @ title a @ lit '': '' @ take 200 (summary a) @ lit ''...''"

definition quick_task :: "pystr \<Rightarrow> article list \<Rightarrow> task" where
  "quick_task keyword articles =
     (let titles_and_summaries = py_join [10, 10] (map quick_line (take 3 articles)) in
      \<lparr>description =
         lit ''Cr'' @ [233] @ lit ''er un r'' @ [233] @ lit ''sum'' @ [233]
         @ lit '' ultra-concis de 2-3 phrases maximum sur les principales d'' @ [233]
         @ lit ''couvertes concernant '' @ [34]
         @ keyword
         @ [34] @ lit '' bas'' @ [233] @ lit '' sur ces articles :'' @ [10, 10]
         @ titles_and_summaries
         @ [10, 10] @ lit ''Le r'' @ [233] @ lit ''sum'' @ [233] @ lit '' doit '' @ [234]
         @ lit ''tre imm'' @ [233] @ lit ''diatement compr'' @ [233]
         @ lit ''hensible et informatif.'',
       agent = SummarizerAgent,
       expected_output =
         lit ''Un r'' @ [233] @ lit ''sum'' @ [233] @ lit '' de 2-3 phrases maximum''\<rparr>)"

definition execute_quick_summary :: "env \<Rightarrow> crew \<Rightarrow> pystr io" where
  "execute_quick_summary env self =
     (if self_articles self = [] then return_io no_article_for_keyword
      else kickoff env (quick_task (self_keyword self) (self_articles self)))"

text \<open>\<^verbatim>\<open>execute_global_synthesis\<close> (lines 340-385).\<close>

definition no_summary_available :: pystr where
  "no_summary_available =
     lit ''Aucun r'' @ [233] @ lit ''sum'' @ [233] @ lit '' disponible pour cr'' @ [233]
     @ lit ''er une synth'' @ [232] @ lit ''se.''"

definition synthesis_item :: "entry \<Rightarrow> pystr" where
  "synthesis_item s =
     lit ''Article : '' @ title s @ [10] @ lit ''R'' @ [233] @ lit ''sum'' @ [233] @ lit '' : ''
     @ summary s"

definition synthesis_task :: "pystr \<Rightarrow> entry list \<Rightarrow> task" where
  "synthesis_task keyword summaries =
     (let all_summaries = py_join [10, 10] (map synthesis_item summaries) in
      \<lparr>description =
         lit ''Cr'' @ [233] @ lit ''er une synth'' @ [232] @ lit ''se globale compl'' @ [232]
         @ lit ''te sur '' @ [34]
         @ keyword
         @ [34] @ lit '' en analysant les r'' @ [233] @ lit ''sum'' @ [233]
         @ lit ''s suivants :'' @ [10, 10]
         @ all_summaries
         @ [10, 10] @ lit ''Identifier :'' @ [10]
         @ lit ''1. Les tendances principales et th'' @ [232] @ lit ''mes r'' @ [233]
         @ lit ''currents'' @ [10]
         @ lit ''2. Les d'' @ [233] @ lit ''couvertes ou innovations importantes'' @ [10]
         @ lit ''3. Les points de convergence entre les articles'' @ [10]
         @ lit ''4. Les perspectives futures et implications'' @ [10, 10]
         @ lit ''Synth'' @ [232] @ lit ''se de 10-15 phrases, structur'' @ [233]
         @ lit ''e et coh'' @ [233] @ lit ''rente.'',
       agent = SynthesizerAgent,
       expected_output =
         lit ''Une synth'' @ [232] @ lit ''se globale structur'' @ [233]
         @ lit ''e de 10-15 phrases''\<rparr>)"

definition execute_global_synthesis :: "env \<Rightarrow> crew \<Rightarrow> pystr io" where
  "execute_global_synthesis env self =
     (if self_article_summaries self = [] then return_io no_summary_available
      else kickoff env (synthesis_task (self_keyword self) (self_article_summaries self)))"

text \<open>The method \<^verbatim>\<open>generate_pdf_report\<close> of the crew (lines 387-412).\<close>

definition crew_generate_pdf_report :: "env \<Rightarrow> crew \<Rightarrow> pystr \<Rightarrow> pystr io" where
  "crew_generate_pdf_report env self global_synthesis =
     generate_pdf_report env (self_keyword self) global_synthesis
       (self_article_summaries self) (lit ''reports'')"

text \<open>
  The dictionary \<^verbatim>\<open>run_complete_workflow\<close> returns, as \<^verbatim>\<open>SearchResponse\<close> reads it: a
  key that is absent, or \<^verbatim>\<open>None\<close>, is \<open>None\<close>.
\<close>

record run_result =
  success :: bool
  keyword :: "pystr option"
  articles_count :: "nat option"
  quick_summary :: "pystr option"
  global_synthesis :: "pystr option"
  article_summaries :: "entry list option"
  pdf_path :: "pystr option"
  error :: "pystr option"

definition no_article_found :: pystr where
  "no_article_found = lit ''Aucun article trouv'' @ [233]"

definition no_articles_result :: run_result where
  "no_articles_result =
     \<lparr>success = False, keyword = None, articles_count = None,
      quick_summary = Some no_article_for_keyword, global_synthesis = None,
      article_summaries = None, pdf_path = None, error = Some no_article_found\<rparr>"

text \<open>\<^verbatim>\<open>run_complete_workflow\<close> (lines 414-462).\<close>

definition run_complete_workflow :: "env \<Rightarrow> crew \<Rightarrow> run_result io" where
  "run_complete_workflow env self =
     bind_io (execute_collection env self)
       (\<lambda>(articles, self1).
          if articles = [] then return_io no_articles_result
          else
            bind_io (execute_quick_summary env self1)
              (\<lambda>quick.
                 bind_io (execute_summarization env self1)
                   (\<lambda>(summaries, self2).
                      bind_io (execute_global_synthesis env self2)
                        (\<lambda>synthesis.
                           bind_io (crew_generate_pdf_report env self2 synthesis)
                             (\<lambda>path.
                                return_io
                                  \<lparr>success = True, keyword = Some (self_keyword self2),
                                   articles_count = Some (length articles),
                                   quick_summary = Some quick,
                                   global_synthesis = Some synthesis,
                                   article_summaries = Some summaries,
                                   pdf_path = Some path, error = None\<rparr>)))))"

section \<open>backend/api.py\<close>

text \<open>
  \<^verbatim>\<open>str.strip()\<close> removes the white space of both ends: the code points for which
  \<^verbatim>\<open>str.isspace\<close> holds.
\<close>

definition is_space :: "nat \<Rightarrow> bool" where
  "is_space c =
     (c \<in> {9, 10, 11, 12, 13, 28, 29, 30, 31, 32, 133, 160, 5760, 8232, 8233, 8239, 8287, 12288}
      \<or> (8192 \<le> c \<and> c \<le> 8202))"

definition py_strip :: "pystr \<Rightarrow> pystr" where
  "py_strip s = rev (dropWhile is_space (rev (dropWhile is_space s)))"

record search_request =
  req_keyword :: pystr
  req_max_articles :: int

definition keyword_empty :: pystr where
  "keyword_empty =
     lit ''Le mot-cl'' @ [233] @ lit '' ne peut pas '' @ [234] @ lit ''tre vide''"

definition count_out_of_range :: pystr where
  "count_out_of_range =
     lit ''Le nombre d'' @ [39] @ lit ''articles doit '' @ [234] @ lit ''tre entre 1 et 50''"

text \<open>\<^verbatim>\<open>search_articles\<close> (lines 77-117). The validation raises inside the \<^verbatim>\<open>try\<close>
  whose handler catches every \<^verbatim>\<open>Exception\<close>.\<close>

definition search_articles :: "env \<Rightarrow> search_request \<Rightarrow> run_result io" where
  "search_articles env request =
     try_io
       (if req_keyword request = [] \<or> py_strip (req_keyword request) = []
        then raise_io (HTTPException 400 keyword_empty)
        else if req_max_articles request < 1 \<or> req_max_articles request > 50
        then raise_io (HTTPException 400 count_out_of_range)
        else
          bind_io
            (VeilleScientifiqueCrew env (req_keyword request) (req_max_articles request))
            (\<lambda>crew. bind_io (run_complete_workflow env crew) (\<lambda>results. return_io results)))
       (\<lambda>e. raise_io
          (HTTPException 500 (lit ''Erreur lors du traitement : '' @ py_str_exc env e)))"

text \<open>The status of the HTTP response FastAPI sends: 200 for a returned model, the
  status code of an \<^verbatim>\<open>HTTPException\<close>, 500 for any other exception.\<close>

definition response_status :: "exn + run_result \<Rightarrow> nat" where
  "response_status r =
     (case r of
        Inr res \<Rightarrow> 200
      | Inl (HTTPException code detail) \<Rightarrow> code
      | Inl (Exception m) \<Rightarrow> 500)"

section \<open>Example runs\<close>

text \<open>Two results of the arXiv library, a world in which every collaborator answers,
  and the variations used below to run the code on concrete inputs.\<close>

definition result1 :: arxiv_result where
  "result1 =
     \<lparr>result_title = lit ''Quantum error correction'',
      result_authors = [lit ''A. Kitaev'', lit ''P. Shor''],
      result_summary = lit ''We study stabilizer codes.'',
      result_published = lit ''2024-05-02'',
      result_pdf_url = Some (lit ''http://arxiv.org/pdf/2405.00001''),
      result_entry_id = lit ''http://arxiv.org/abs/2405.00001'',
      result_categories = [lit ''quant-ph''],
      result_primary_category = lit ''quant-ph''\<rparr>"

definition result2 :: arxiv_result where
  "result2 =
     \<lparr>result_title = lit ''Surface codes'',
      result_authors = [lit ''R. Raussendorf''],
      result_summary = lit ''A threshold for surface codes.'',
      result_published = lit ''2024-05-01'',
      result_pdf_url = None,
      result_entry_id = lit ''http://arxiv.org/abs/2405.00002'',
      result_categories = [lit ''quant-ph'', lit ''cs.IT''],
      result_primary_category = lit ''quant-ph''\<rparr>"

definition article1 :: article where
  "article1 = direct_article result1"

definition article2 :: article where
  "article2 = direct_article result2"

definition quantum :: pystr where
  "quantum = lit ''quantum computing''"

text \<open>Starlette's \<^verbatim>\<open>HTTPException.__str__\<close>: the three digits of the status code, a colon
  and the detail.\<close>

definition status_and_detail :: "nat \<Rightarrow> pystr \<Rightarrow> pystr" where
  "status_and_detail code detail =
     [48 + code div 100 mod 10, 48 + code div 10 mod 10, 48 + code mod 10] @ lit '': ''
     @ detail"

definition fine_env :: env where
  "fine_env =
     \<lparr>db_api = (\<lambda>h s. Done),
      distance = (\<lambda>u v. 0),
      embed_api = (\<lambda>h s. Inr [1, 0]),
      arxiv_api = (\<lambda>h q n. Inr [result1, result2]),
      llm_api = (\<lambda>h t. Inr (lit ''A summary.'')),
      clients_api = (\<lambda>h. None),
      makedirs_api = (\<lambda>h d. None),
      build_api = (\<lambda>h p d. None),
      now = (\<lambda>h. lit ''20240503_101500''),
      mcp_session_api = (\<lambda>h. Done),
      mcp_call_api = (\<lambda>h. None),
      http_exc_str = status_and_detail,
      use_mcp_arxiv = False\<rparr>"

definition timeout_error :: exn where
  "timeout_error = Exception (lit ''Request timed out.'')"

definition connection_refused :: exn where
  "connection_refused = Exception (lit ''connection refused'')"

text \<open>The database is unreachable.\<close>

definition db_down_env :: env where
  "db_down_env = fine_env\<lparr>db_api := (\<lambda>h s. FailBefore connection_refused)\<rparr>"

text \<open>The embedding service is unreachable.\<close>

definition embed_down_env :: env where
  "embed_down_env = fine_env\<lparr>embed_api := (\<lambda>h s. Inl timeout_error)\<rparr>"

definition fresh_world :: world where
  "fresh_world = \<lparr>trace = [], table = Some [], files = []\<rparr>"

text \<open>Two embeddings of 1536 components, as the table takes them (the two components
  that \<open>fine_env\<close> answers with are refused by an insert), and an embedding service and
  a distance that tell them apart.\<close>

definition east :: "real list" where
  "east = 1 # replicate 1535 0"

definition north :: "real list" where
  "north = 0 # 1 # replicate 1534 0"

definition ranking_env :: env where
  "ranking_env =
     fine_env\<lparr>embed_api := (\<lambda>h s. Inr east),
              distance := (\<lambda>u v. if u = v then 0 else 1)\<rparr>"

text \<open>Both articles are stored under the keyword \<^verbatim>\<open>quantum computing\<close>, the second
  one first.\<close>

definition held_world :: world where
  "held_world =
     \<lparr>trace = [],
      table = Some [insert_row article2 quantum north, insert_row article1 quantum east],
      files = []\<rparr>"

text \<open>A keyword of 300 letters, and one of 255 letters and five spaces.\<close>

definition long_keyword :: pystr where
  "long_keyword = replicate 300 97"

definition padded_keyword :: pystr where
  "padded_keyword = replicate 255 97 @ replicate 5 32"

text \<open>The language model is unreachable; it fails for the synthesizer agent only; it
  answers the first task and fails from the second on.\<close>

definition llm_down_env :: env where
  "llm_down_env = fine_env\<lparr>llm_api := (\<lambda>h t. Inl timeout_error)\<rparr>"

definition synthesis_down_env :: env where
  "synthesis_down_env =
     fine_env\<lparr>llm_api :=
       (\<lambda>h t. if agent t = SynthesizerAgent then Inl timeout_error
              else Inr (lit ''A summary.''))\<rparr>"



text \<open>arXiv has nothing for the keyword.\<close>

definition no_result_env :: env where
  "no_result_env = fine_env\<lparr>arxiv_api := (\<lambda>h q n. Inr [])\<rparr>"

text \<open>Crews: as the constructor leaves them, and after a collection.\<close>

definition quantum_crew :: crew where
  "quantum_crew =
     \<lparr>self_keyword = quantum, self_max_articles = 5, self_articles = [],
      self_article_summaries = []\<rparr>"

definition unknown_crew :: crew where
  "unknown_crew =
     \<lparr>self_keyword = lit ''zzzxxxyyy-nonexistent-term'', self_max_articles = 5,
      self_articles = [], self_article_summaries = []\<rparr>"

definition loaded_crew :: crew where
  "loaded_crew = quantum_crew\<lparr>self_articles := [article1, article2]\<rparr>"



section \<open>Properties\<close>

lemmas io_defs = return_io_def raise_io_def bind_io_def try_io_def

lemma try_io_return_total: "\<exists>x w'. try_io m (\<lambda>e. return_io d) w = (Inr x, w')"
  by (cases "m w"; cases "fst (m w)") (auto simp: try_io_def return_io_def)

lemma try_io_return_raised:
  "fst (m w) = Inl e \<Longrightarrow> try_io m (\<lambda>e. return_io d) w = (Inr d, snd (m w))"
  by (cases "m w") (auto simp: try_io_def return_io_def)

lemma bind_io_raised: "fst (m w) = Inl e \<Longrightarrow> bind_io m f w = (Inl e, snd (m w))"
  by (cases "m w") (auto simp: bind_io_def)

subsection \<open>The database manager\<close>

text \<open>
  C10. The four public operations of the database manager never raise: each returns a
  value in every world, and when the database operation inside it raises (the connection
  fails, the engine refuses the statement, the table is missing) the value is
  \<^verbatim>\<open>False\<close> or the empty list. Constructing a \<^verbatim>\<open>DatabaseManager\<close> returns normally too,
  also when the schema initialisation raises: the exception is dropped.
\<close>

theorem database_manager_never_raises:
  "(\<exists>b w'. insert_article env a kw emb w = (Inr b, w')) \<and>
   (\<exists>hs w'. search_similar_articles env q kw k w = (Inr hs, w')) \<and>
   (\<exists>ps w'. get_all_articles_by_keyword env kw w = (Inr ps, w')) \<and>
   (\<exists>b w'. clear_articles_by_keyword env kw w = (Inr b, w')) \<and>
   (\<exists>w'. DatabaseManager env w = (Inr (), w')) \<and>
   (isl (fst (db_run env (Insert (insert_row a kw emb)) (sem_insert (insert_row a kw emb)) w))
      \<longrightarrow> fst (insert_article env a kw emb w) = Inr False) \<and>
   (isl (fst (db_run env (SelectSimilar q kw k) (sem_similar env q kw k) w))
      \<longrightarrow> fst (search_similar_articles env q kw k w) = Inr []) \<and>
   (isl (fst (db_run env (SelectByKeyword kw) (sem_by_keyword kw) w))
      \<longrightarrow> fst (get_all_articles_by_keyword env kw w) = Inr []) \<and>
   (isl (fst (db_run env (DeleteByKeyword kw) (sem_delete kw) w))
      \<longrightarrow> fst (clear_articles_by_keyword env kw w) = Inr False) \<and>
   (isl (fst (db_run env CreateSchema sem_create w))
      \<longrightarrow> DatabaseManager env w = (Inr (), snd (db_run env CreateSchema sem_create w)))"
proof (intro conjI impI)
  show "\<exists>b w'. insert_article env a kw emb w = (Inr b, w')"
    unfolding insert_article_def by (rule try_io_return_total)
  show "\<exists>hs w'. search_similar_articles env q kw k w = (Inr hs, w')"
    unfolding search_similar_articles_def by (rule try_io_return_total)
  show "\<exists>ps w'. get_all_articles_by_keyword env kw w = (Inr ps, w')"
    unfolding get_all_articles_by_keyword_def by (rule try_io_return_total)
  show "\<exists>b w'. clear_articles_by_keyword env kw w = (Inr b, w')"
    unfolding clear_articles_by_keyword_def by (rule try_io_return_total)
  show "\<exists>w'. DatabaseManager env w = (Inr (), w')"
    unfolding DatabaseManager_def init_database_def
    using try_io_return_total [of "db_run env CreateSchema sem_create" "()" w] by auto
next
  assume "isl (fst (db_run env (Insert (insert_row a kw emb)) (sem_insert (insert_row a kw emb)) w))"
  then obtain e where
    "fst (db_run env (Insert (insert_row a kw emb)) (sem_insert (insert_row a kw emb)) w) = Inl e"
    by (auto simp: isl_def)
  then show "fst (insert_article env a kw emb w) = Inr False"
    by (simp add: insert_article_def bind_io_raised try_io_return_raised)
next
  assume "isl (fst (db_run env (SelectSimilar q kw k) (sem_similar env q kw k) w))"
  then obtain e where
    "fst (db_run env (SelectSimilar q kw k) (sem_similar env q kw k) w) = Inl e"
    by (auto simp: isl_def)
  then show "fst (search_similar_articles env q kw k w) = Inr []"
    by (simp add: search_similar_articles_def try_io_return_raised)
next
  assume "isl (fst (db_run env (SelectByKeyword kw) (sem_by_keyword kw) w))"
  then obtain e where "fst (db_run env (SelectByKeyword kw) (sem_by_keyword kw) w) = Inl e"
    by (auto simp: isl_def)
  then show "fst (get_all_articles_by_keyword env kw w) = Inr []"
    by (simp add: get_all_articles_by_keyword_def try_io_return_raised)
next
  assume "isl (fst (db_run env (DeleteByKeyword kw) (sem_delete kw) w))"
  then obtain e where "fst (db_run env (DeleteByKeyword kw) (sem_delete kw) w) = Inl e"
    by (auto simp: isl_def)
  then show "fst (clear_articles_by_keyword env kw w) = Inr False"
    by (simp add: clear_articles_by_keyword_def bind_io_raised try_io_return_raised)
next
  assume "isl (fst (db_run env CreateSchema sem_create w))"
  then obtain e where "fst (db_run env CreateSchema sem_create w) = Inl e"
    by (auto simp: isl_def)
  then show "DatabaseManager env w = (Inr (), snd (db_run env CreateSchema sem_create w))"
    by (simp add: DatabaseManager_def init_database_def try_io_return_raised)
qed

text \<open>With the database unreachable, each operation raises inside and returns its
  default; the constructor returns and leaves the table as it was.\<close>

theorem database_manager_never_raises_witness:
  "isl (fst (db_run db_down_env (Insert (insert_row article1 quantum [1, 0]))
               (sem_insert (insert_row article1 quantum [1, 0])) fresh_world)) \<and>
   fst (insert_article db_down_env article1 quantum [1, 0] fresh_world) = Inr False \<and>
   isl (fst (db_run db_down_env (SelectSimilar [1, 0] quantum 3)
               (sem_similar db_down_env [1, 0] quantum 3) fresh_world)) \<and>
   fst (search_similar_articles db_down_env [1, 0] quantum 3 fresh_world) = Inr [] \<and>
   isl (fst (db_run db_down_env (SelectByKeyword quantum) (sem_by_keyword quantum) fresh_world)) \<and>
   fst (get_all_articles_by_keyword db_down_env quantum fresh_world) = Inr [] \<and>
   isl (fst (db_run db_down_env (DeleteByKeyword quantum) (sem_delete quantum) fresh_world)) \<and>
   fst (clear_articles_by_keyword db_down_env quantum fresh_world) = Inr False \<and>
   isl (fst (db_run db_down_env CreateSchema sem_create fresh_world)) \<and>
   fst (DatabaseManager db_down_env fresh_world) = Inr () \<and>
   table (snd (DatabaseManager db_down_env fresh_world)) = Some []"
proof -
  have down: "db_api db_down_env h s = FailBefore connection_refused" for h s
    by (simp add: db_down_env_def)
  have raised: "db_run db_down_env s sem fresh_world
                  = (Inl connection_refused, log_event (Db s) fresh_world)"
    for s and sem :: "row list option \<Rightarrow> exn + row list option \<times> 'a"
    by (simp add: db_run_def Let_def down)
  have tbl: "table (log_event ev fresh_world) = Some []" for ev
    by (simp add: log_event_def fresh_world_def)
  show ?thesis
    using database_manager_never_raises
      [of db_down_env article1 quantum "[1, 0]" fresh_world "[1, 0]" 3]
    by (simp add: raised tbl)
qed

lemma stored_form_accepted:
  "accepted r \<Longrightarrow>
   stored_form r = Inr (r\<lparr>entry_id := take 255 (entry_id r), published := take 20 (published r),
                          row_keyword := take 255 (row_keyword r)\<rparr>)"
  by (simp add: stored_form_def)

lemma stored_form_refused: "\<not> accepted r \<Longrightarrow> stored_form r = Inl data_error"
  by (simp add: stored_form_def)

lemma insert_article_result:
  assumes tbl: "table w = Some rows"
  shows "insert_article env a kw emb w =
     (Inr (db_api env (trace w) (Insert (insert_row a kw emb)) = Done \<and>
           accepted (insert_row a kw emb)),
      (log_event (Db (Insert (insert_row a kw emb))) w)
        \<lparr>table :=
           Some (if (\<exists>e. db_api env (trace w) (Insert (insert_row a kw emb)) = FailBefore e)
                    \<or> \<not> accepted (insert_row a kw emb)
                    \<or> take 255 (entry_id a) \<in> set (map entry_id rows)
                 then rows
                 else rows @ [(insert_row a kw emb)
                                \<lparr>entry_id := take 255 (entry_id a),
                                 published := take 20 (published a),
                                 row_keyword := take 255 kw\<rparr>])\<rparr>)"
proof (cases "accepted (insert_row a kw emb)")
  case True
  have fields: "entry_id (insert_row a kw emb) = entry_id a"
    "published (insert_row a kw emb) = published a" "row_keyword (insert_row a kw emb) = kw"
    by (simp_all add: insert_row_def)
  show ?thesis
    using tbl True
    by (cases "db_api env (trace w) (Insert (insert_row a kw emb))")
       (simp_all add: insert_article_def db_run_def Let_def io_defs sem_insert_def
          stored_form_accepted fields log_event_def)
next
  case False
  show ?thesis
    using tbl False
    by (cases "db_api env (trace w) (Insert (insert_row a kw emb))")
       (simp_all add: insert_article_def db_run_def Let_def io_defs sem_insert_def
          stored_form_refused log_event_def)
qed

lemma count_of_member_distinct:
  fixes x :: pystr
  shows "x \<in> set xs \<Longrightarrow> distinct xs \<Longrightarrow> length (filter (\<lambda>y. y = x) xs) = 1"
  by (induction xs) (auto simp: filter_empty_conv)

lemma accepted_insert_row:
  "accepted (insert_row a kw emb) =
     (fits 255 (entry_id a) \<and> fits 20 (published a) \<and> fits 255 kw \<and> length emb = 1536)"
  by (simp add: accepted_def insert_row_def)

text \<open>
  C6 (as amended). On a table whose ids are unique, for an article whose \<^verbatim>\<open>entry_id\<close> has
  at most 255 characters: when the id is already in the table, \<^verbatim>\<open>insert_article\<close> leaves
  the table as it is, whatever it returns, under any keyword and embedding. It returns
  \<^verbatim>\<open>True\<close> exactly when the connection and the engine run the statement and the values
  fit the columns, that is \<^verbatim>\<open>published\<close> has at most 20 characters and the keyword at
  most 255 (spaces beyond the limit apart) and the embedding has 1536 components; in every
  other case it returns \<^verbatim>\<open>False\<close>, also when the id is present. After an insert that
  returned \<^verbatim>\<open>True\<close>, a second insert of the same id, under any keyword and embedding and
  whatever it returns, leaves the table as the first left it, and the table holds exactly
  one row with that id.
\<close>

theorem upsert_conflict_ignore:
  assumes tbl: "table w = Some rows"
    and uniq: "distinct (map entry_id rows)"
    and id: "length (entry_id a) \<le> 255"
    and same: "entry_id a' = entry_id a"
  shows "(entry_id a \<in> set (map entry_id rows) \<longrightarrow>
            table (snd (insert_article env a kw emb w)) = Some rows) \<and>
         fst (insert_article env a kw emb w) =
           Inr (db_api env (trace w) (Insert (insert_row a kw emb)) = Done \<and>
                (length (published a) \<le> 20 \<or> list_all (\<lambda>c. c = 32) (drop 20 (published a))) \<and>
                (length kw \<le> 255 \<or> list_all (\<lambda>c. c = 32) (drop 255 kw)) \<and>
                length emb = 1536) \<and>
         (fst (insert_article env a kw emb w) = Inr True \<longrightarrow>
            (\<exists>rows1.
               table (snd (insert_article env a kw emb w)) = Some rows1 \<and>
               table (snd (insert_article env a' kw' emb' (snd (insert_article env a kw emb w))))
                 = Some rows1 \<and>
               length (filter (\<lambda>r. entry_id r = entry_id a) rows1) = 1 \<and>
               distinct (map entry_id rows1)))"
proof (intro conjI impI)
  let ?r = "insert_row a kw emb"
  let ?stored = "?r\<lparr>entry_id := take 255 (entry_id a), published := take 20 (published a),
                     row_keyword := take 255 kw\<rparr>"
  note first = insert_article_result [OF tbl, of env a kw emb]
  have acc: "accepted ?r =
      ((length (published a) \<le> 20 \<or> list_all (\<lambda>c. c = 32) (drop 20 (published a))) \<and>
       (length kw \<le> 255 \<or> list_all (\<lambda>c. c = 32) (drop 255 kw)) \<and> length emb = 1536)"
    using id by (simp add: accepted_insert_row fits_def)
  have take_id: "take 255 (entry_id a) = entry_id a"
    using id by simp
  {
    assume "entry_id a \<in> set (map entry_id rows)"
    then show "table (snd (insert_article env a kw emb w)) = Some rows"
      by (simp add: first take_id)
  }
  show "fst (insert_article env a kw emb w) =
           Inr (db_api env (trace w) (Insert (insert_row a kw emb)) = Done \<and>
                (length (published a) \<le> 20 \<or> list_all (\<lambda>c. c = 32) (drop 20 (published a))) \<and>
                (length kw \<le> 255 \<or> list_all (\<lambda>c. c = 32) (drop 255 kw)) \<and>
                length emb = 1536)"
    by (simp add: first acc)
  {
    assume "fst (insert_article env a kw emb w) = Inr True"
    then have done1: "db_api env (trace w) (Insert ?r) = Done" and acc1: "accepted ?r"
      by (simp_all add: first)
    let ?rows1 = "if entry_id a \<in> set (map entry_id rows) then rows else rows @ [?stored]"
    let ?w1 = "snd (insert_article env a kw emb w)"
    have tbl1: "table ?w1 = Some ?rows1"
      using done1 acc1 by (simp add: first take_id)
    have id_stored: "entry_id ?stored = entry_id a"
      by (simp add: take_id)
    have present: "entry_id a \<in> set (map entry_id ?rows1)"
      using id_stored by auto
    have dist1: "distinct (map entry_id ?rows1)"
      using uniq id_stored by auto
    have take_id': "take 255 (entry_id a') = entry_id a"
      using same take_id by simp
    have tbl2: "table (snd (insert_article env a' kw' emb' ?w1)) = Some ?rows1"
      using present by (simp add: insert_article_result [OF tbl1] take_id')
    from count_of_member_distinct [of "entry_id a" "map entry_id ?rows1"] present dist1
    have one: "length (filter (\<lambda>r. entry_id r = entry_id a) ?rows1) = 1"
      by (simp add: filter_map comp_def)
    show "\<exists>rows1.
               table (snd (insert_article env a kw emb w)) = Some rows1 \<and>
               table (snd (insert_article env a' kw' emb' (snd (insert_article env a kw emb w))))
                 = Some rows1 \<and>
               length (filter (\<lambda>r. entry_id r = entry_id a) rows1) = 1 \<and>
               distinct (map entry_id rows1)"
      using tbl1 tbl2 one dist1 by (intro exI [of _ ?rows1]) simp
  }
qed

subsection \<open>The context builder\<close>

lemma search_similar_articles_result:
  "search_similar_articles env q kw k w =
     (Inr (case db_api env (trace w) (SelectSimilar q kw k) of
             Done \<Rightarrow>
               (case table w of
                  None \<Rightarrow> []
                | Some rows \<Rightarrow>
                    if k < 0 \<or> list_ex (\<lambda>r. length (row_embedding r) \<noteq> length q)
                                   (filter (\<lambda>r. row_keyword r = kw) rows)
                    then []
                    else map (to_hit env q)
                           (take (nat k)
                             (sort_key (\<lambda>r. distance env (row_embedding r) q)
                               (filter (\<lambda>r. row_keyword r = kw) rows))))
           | FailBefore e \<Rightarrow> []
           | FailAfter e \<Rightarrow> []),
      log_event (Db (SelectSimilar q kw k)) w)"
  by (cases w)
     (auto simp: search_similar_articles_def db_run_def sem_similar_def io_defs Let_def log_event_def
        split: outcome.splits option.splits)

lemma retrieve_relevant_articles_result:
  "retrieve_relevant_articles env query kw k w =
     (case embed_api env (trace w) query of
        Inl e \<Rightarrow> (Inr [], log_event (Embed query) w)
      | Inr q \<Rightarrow> search_similar_articles env q kw k (log_event (Embed query) w))"
  by (simp add: retrieve_relevant_articles_def embed_query_def io_defs
        search_similar_articles_result split: sum.splits)

lemma get_context_for_summary_result:
  "get_context_for_summary env t kw w =
     (case retrieve_relevant_articles env t kw 3 w of
        (Inr hits, w') \<Rightarrow> (Inr (py_join context_separator (map context_part hits)), w')
      | (Inl e, w') \<Rightarrow> (Inr [], w'))"
  by (simp add: get_context_for_summary_def io_defs split: prod.splits sum.splits)

lemma py_join_cases:
  "py_join sep xs = (case xs of [] \<Rightarrow> [] | x # xs' \<Rightarrow> x @ concat (map (\<lambda>y. sep @ y) xs'))"
  by (induction sep xs rule: py_join.induct) simp_all

text \<open>
  C9. \<^verbatim>\<open>get_context_for_summary\<close> never raises. It asks for the embedding of the
  article's title (and of nothing else), retrieves with it at most three neighbours among
  the rows of the keyword, nearest first, and returns one part for each neighbour, its
  title and its abstract, each on a labelled line; between two parts stands the line
  \<^verbatim>\<open>---\<close>, a line feed before it and one after it. The result is the empty text when
  there is no neighbour, when the embedding call raises and when the database operation
  raises, as it does when a stored vector of the keyword and the query differ in length.
\<close>

theorem get_context_for_summary_contract:
  "\<exists>hits w'.
     retrieve_relevant_articles env t kw 3 w = (Inr hits, w') \<and>
     length hits \<le> 3 \<and>
     get_context_for_summary env t kw w
       = (Inr (case hits of
                 [] \<Rightarrow> []
               | h # hs \<Rightarrow>
                   lit ''Titre: '' @ title h @ [10] @ lit ''R'' @ [233] @ lit ''sum'' @ [233]
                   @ lit '': '' @ summary h @ [10]
                   @ concat (map (\<lambda>n. [10] @ lit ''---'' @ [10]
                                    @ lit ''Titre: '' @ title n @ [10] @ lit ''R'' @ [233]
                                    @ lit ''sum'' @ [233] @ lit '': '' @ summary n @ [10]) hs)),
          w') \<and>
     (hits = [] \<longrightarrow> fst (get_context_for_summary env t kw w) = Inr []) \<and>
     (case embed_api env (trace w) t of
        Inl e \<Rightarrow> hits = [] \<and> trace w' = trace w @ [Embed t]
      | Inr q \<Rightarrow>
          trace w' = trace w @ [Embed t, Db (SelectSimilar q kw 3)] \<and>
          (isl (fst (db_run env (SelectSimilar q kw 3) (sem_similar env q kw 3)
                       (log_event (Embed t) w))) \<longrightarrow> hits = []) \<and>
          (\<forall>rows. table w = Some rows \<and>
                  db_api env (trace w @ [Embed t]) (SelectSimilar q kw 3) = Done \<longrightarrow>
             hits = (if list_ex (\<lambda>r. length (row_embedding r) \<noteq> length q)
                          (filter (\<lambda>r. row_keyword r = kw) rows)
                     then []
                     else map (to_hit env q)
                            (take 3 (sort_key (\<lambda>r. distance env (row_embedding r) q)
                                       (filter (\<lambda>r. row_keyword r = kw) rows))))))"
proof -
  have joined: "py_join context_separator (map context_part hits)
      = (case hits of
                 [] \<Rightarrow> []
               | h # hs \<Rightarrow>
                   lit ''Titre: '' @ title h @ [10] @ lit ''R'' @ [233] @ lit ''sum'' @ [233]
                   @ lit '': '' @ summary h @ [10]
                   @ concat (map (\<lambda>n. [10] @ lit ''---'' @ [10]
                                    @ lit ''Titre: '' @ title n @ [10] @ lit ''R'' @ [233]
                                    @ lit ''sum'' @ [233] @ lit '': '' @ summary n @ [10]) hs))"
    for hits
    unfolding py_join_cases context_separator_def context_part_def [abs_def]
    by (cases hits) (simp_all only: list.map list.case append_assoc map_map comp_def)
  show ?thesis
  proof (cases "embed_api env (trace w) t")
    case (Inl e)
    then show ?thesis
      unfolding joined [symmetric]
      by (simp add: get_context_for_summary_result retrieve_relevant_articles_result log_event_def)
  next
    case (Inr q)
    let ?w1 = "log_event (Embed t) w"
    obtain hits where hits: "search_similar_articles env q kw 3 ?w1
        = (Inr hits, log_event (Db (SelectSimilar q kw 3)) ?w1)"
      by (simp add: search_similar_articles_result)
    have len: "length hits \<le> 3"
      using hits by (auto simp: search_similar_articles_result split: outcome.splits option.splits if_splits)
    have raised: "isl (fst (db_run env (SelectSimilar q kw 3) (sem_similar env q kw 3) ?w1))
                   \<Longrightarrow> hits = []"
      using hits
      by (auto simp: search_similar_articles_def db_run_def Let_def io_defs isl_def
            split: outcome.splits sum.splits prod.splits)
    have ranked: "hits = (if list_ex (\<lambda>r. length (row_embedding r) \<noteq> length q)
                          (filter (\<lambda>r. row_keyword r = kw) rows)
                     then []
                     else map (to_hit env q)
                            (take 3 (sort_key (\<lambda>r. distance env (row_embedding r) q)
                                       (filter (\<lambda>r. row_keyword r = kw) rows))))"
      if "table w = Some rows" "db_api env (trace w @ [Embed t]) (SelectSimilar q kw 3) = Done"
      for rows
      using hits that
      by (auto simp add: search_similar_articles_result log_event_def)
    show ?thesis
      unfolding joined [symmetric]
      using Inr hits len raised ranked
      by (simp add: get_context_for_summary_result retrieve_relevant_articles_result log_event_def)
  qed
qed

subsection \<open>The summarization stage\<close>

lemma get_context_for_summary_returns:
  "\<exists>context w'. get_context_for_summary env t kw w = (Inr context, w')"
  unfolding get_context_for_summary_def by (rule try_io_return_total)

lemma summarize_article_result:
  "summarize_article env a self w =
     (case get_context_for_summary env (title a) (self_keyword self) w of
        (Inl e, w1) \<Rightarrow> (Inl e, w1)
      | (Inr context, w1) \<Rightarrow>
          (case llm_api env (trace w1) (summary_task a context) of
             Inl e \<Rightarrow> (Inl e, log_event (Kickoff (summary_task a context)) w1)
           | Inr result \<Rightarrow>
               (Inr (self\<lparr>self_article_summaries :=
                       self_article_summaries self
                       @ [\<lparr>title = title a, authors = authors a, summary = result,
                           published = published a, pdf_url = pdf_url a\<rparr>]\<rparr>),
                log_event (Kickoff (summary_task a context)) w1)))"
  by (simp add: summarize_article_def kickoff_def io_defs split: prod.splits sum.splits)

lemma agent_summary_task: "agent (summary_task a context) = SummarizerAgent"
  by (simp add: summary_task_def)

lemma summarize_article_Inr:
  assumes "summarize_article env a self w = (Inr self', w')"
  shows "\<exists>result. self' = self\<lparr>self_article_summaries :=
                       self_article_summaries self
                       @ [\<lparr>title = title a, authors = authors a, summary = result,
                           published = published a, pdf_url = pdf_url a\<rparr>]\<rparr>"
  using assms get_context_for_summary_returns [of env "title a" "self_keyword self" w]
  by (auto simp: summarize_article_result split: sum.splits)


lemma summarize_article_total:
  assumes "\<forall>h t. agent t = SummarizerAgent \<longrightarrow> (\<exists>s. llm_api env h t = Inr s)"
  shows "\<exists>self' w'. summarize_article env a self w = (Inr self', w')"
proof -
  obtain ctx w1 where c: "get_context_for_summary env (title a) (self_keyword self) w = (Inr ctx, w1)"
    using get_context_for_summary_returns by blast
  obtain s where "llm_api env (trace w1) (summary_task a ctx) = Inr s"
    using assms agent_summary_task by blast
  then show ?thesis
    using c by (simp add: summarize_article_result)
qed

lemma summarize_loop_Inr:
  "summarize_loop env as self w = (Inr self', w') \<Longrightarrow>
   \<exists>new. self' = self\<lparr>self_article_summaries := self_article_summaries self @ new\<rparr> \<and>
     map title new = map title as \<and> map authors new = map authors as \<and>
     map published new = map published as \<and> map pdf_url new = map pdf_url as"
proof (induction as arbitrary: self w)
  case Nil
  then show ?case by simp
next
  case (Cons a as)
  from Cons.prems obtain self1 w1 where
    step: "summarize_article env a self w = (Inr self1, w1)"
    and rest: "summarize_loop env as self1 w1 = (Inr self', w')"
    by (auto split: prod.splits sum.splits)
  from summarize_article_Inr [OF step] obtain result where
    self1: "self1 = self\<lparr>self_article_summaries :=
                       self_article_summaries self
                       @ [\<lparr>title = title a, authors = authors a, summary = result,
                           published = published a, pdf_url = pdf_url a\<rparr>]\<rparr>"
    by blast
  from Cons.IH [OF rest] obtain new where
    new: "self' = self1\<lparr>self_article_summaries := self_article_summaries self1 @ new\<rparr>"
      "map title new = map title as" "map authors new = map authors as"
      "map published new = map published as" "map pdf_url new = map pdf_url as"
    by blast
  let ?s = "\<lparr>title = title a, authors = authors a, summary = result,
             published = published a, pdf_url = pdf_url a\<rparr>"
  have "self' = self\<lparr>self_article_summaries := self_article_summaries self @ (?s # new)\<rparr>"
    using new(1) self1 by simp
  then show ?case
    using new(2-5) by (intro exI [of _ "?s # new"]) simp
qed


lemma summarize_loop_total:
  assumes "\<forall>h t. agent t = SummarizerAgent \<longrightarrow> (\<exists>s. llm_api env h t = Inr s)"
  shows "\<exists>self' w'. summarize_loop env as self w = (Inr self', w')"
proof (induction as arbitrary: self w)
  case Nil
  show ?case by simp
next
  case (Cons a as)
  obtain self1 w1 where "summarize_article env a self w = (Inr self1, w1)"
    using summarize_article_total [OF assms] by blast
  then show ?case using Cons.IH [of self1 w1] by simp
qed

lemma execute_summarization_result:
  "execute_summarization env self w =
     (if self_articles self = [] then (Inr ([], self), w)
      else case summarize_loop env (self_articles self) self w of
             (Inl e, w') \<Rightarrow> (Inl e, w')
           | (Inr self', w') \<Rightarrow> (Inr (self_article_summaries self', self'), w'))"
  by (simp add: execute_summarization_def io_defs split: prod.splits sum.splits)

lemma execute_summarization_Inr:
  assumes "execute_summarization env self w = (Inr (out, self'), w')"
  shows "\<exists>new. drop (length (self_article_summaries self)) out = new \<and>
     map title new = map title (self_articles self) \<and>
     map authors new = map authors (self_articles self) \<and>
     map published new = map published (self_articles self) \<and>
     map pdf_url new = map pdf_url (self_articles self)"
proof (cases "self_articles self = []")
  case True
  with assms show ?thesis by (simp add: execute_summarization_result)
next
  case False
  with assms have loop: "summarize_loop env (self_articles self) self w = (Inr self', w')"
    and out: "out = self_article_summaries self'"
    by (auto simp: execute_summarization_result split: prod.splits sum.splits)
  from summarize_loop_Inr [OF loop] out show ?thesis by auto
qed


lemma execute_summarization_total:
  assumes "\<forall>h t. agent t = SummarizerAgent \<longrightarrow> (\<exists>s. llm_api env h t = Inr s)"
  shows "\<exists>out self' w'. execute_summarization env self w = (Inr (out, self'), w')"
  using summarize_loop_total [OF assms, of "self_articles self" self w]
  by (auto simp: execute_summarization_result)




text \<open>
  C8. Every summary the summarization stage produces has the authors, the publication
  date and the PDF link of the article it was made from, unchanged: the summaries added
  by the stage carry, in order, the articles' values of these three fields.
\<close>

theorem summaries_keep_article_fields:
  assumes "execute_summarization env self w = (Inr (out, self'), w')"
  shows "map authors (drop (length (self_article_summaries self)) out)
           = map authors (self_articles self) \<and>
         map published (drop (length (self_article_summaries self)) out)
           = map published (self_articles self) \<and>
         map pdf_url (drop (length (self_article_summaries self)) out)
           = map pdf_url (self_articles self)"
  using execute_summarization_Inr [OF assms] by simp

subsection \<open>The workflow\<close>

lemma run_complete_workflow_stages:
  assumes "execute_collection env self w = (Inr (arts, self1), w1)"
  shows "run_complete_workflow env self w =
     (if arts = [] then (Inr no_articles_result, w1)
      else
        case execute_quick_summary env self1 w1 of
          (Inl e, w2) \<Rightarrow> (Inl e, w2)
        | (Inr quick, w2) \<Rightarrow>
            (case execute_summarization env self1 w2 of
               (Inl e, w3) \<Rightarrow> (Inl e, w3)
             | (Inr (summaries, self2), w3) \<Rightarrow>
                 (case execute_global_synthesis env self2 w3 of
                    (Inl e, w4) \<Rightarrow> (Inl e, w4)
                  | (Inr synthesis, w4) \<Rightarrow>
                      (case crew_generate_pdf_report env self2 synthesis w4 of
                         (Inl e, w5) \<Rightarrow> (Inl e, w5)
                       | (Inr path, w5) \<Rightarrow>
                           (Inr \<lparr>success = True, keyword = Some (self_keyword self2),
                                 articles_count = Some (length arts),
                                 quick_summary = Some quick,
                                 global_synthesis = Some synthesis,
                                 article_summaries = Some summaries,
                                 pdf_path = Some path, error = None\<rparr>, w5)))))"
  using assms
  by (simp add: run_complete_workflow_def io_defs split: prod.splits sum.splits)

text \<open>
  C5. When the collection stage yields no article, \<^verbatim>\<open>run_complete_workflow\<close> returns at
  once, in the world the collection left (no later stage has run): the result has
  \<^verbatim>\<open>success\<close> false, the fixed error message, the fixed quick summary and no PDF path.
\<close>

theorem no_articles_terminal_failure:
  assumes "execute_collection env self w = (Inr ([], self1), w1)"
  shows "run_complete_workflow env self w =
     (Inr \<lparr>success = False, keyword = None, articles_count = None,
           quick_summary =
             Some (lit ''Aucun article trouv'' @ [233] @ lit '' pour ce mot-cl'' @ [233]
                   @ lit ''.''),
           global_synthesis = None, article_summaries = None, pdf_path = None,
           error = Some (lit ''Aucun article trouv'' @ [233])\<rparr>, w1)"
  using run_complete_workflow_stages [OF assms]
  by (simp add: no_articles_result_def no_article_for_keyword_def no_article_found_def)




lemma run_quick_raises:
  assumes "execute_collection env self w = (Inr (found, self1), w1)" and "found \<noteq> []"
    and "execute_quick_summary env self1 w1 = (Inl e, w2)"
  shows "run_complete_workflow env self w = (Inl e, w2)"
  using run_complete_workflow_stages [OF assms(1)] assms(2,3) by simp

lemma run_summarization_raises:
  assumes "execute_collection env self w = (Inr (found, self1), w1)" and "found \<noteq> []"
    and "execute_quick_summary env self1 w1 = (Inr quick, w2)"
    and "execute_summarization env self1 w2 = (Inl e, w3)"
  shows "run_complete_workflow env self w = (Inl e, w3)"
  using run_complete_workflow_stages [OF assms(1)] assms(2,3,4) by simp

lemma run_synthesis_raises:
  assumes "execute_collection env self w = (Inr (found, self1), w1)" and "found \<noteq> []"
    and "execute_quick_summary env self1 w1 = (Inr quick, w2)"
    and "execute_summarization env self1 w2 = (Inr (summaries, self2), w3)"
    and "execute_global_synthesis env self2 w3 = (Inl e, w4)"
  shows "run_complete_workflow env self w = (Inl e, w4)"
  using run_complete_workflow_stages [OF assms(1)] assms(2,3,4,5) by simp



subsection \<open>Frame: only the report builder writes files\<close>

lemma bind_io_files:
  assumes "\<And>w. files (snd (m w)) = files w" and "\<And>x w. files (snd (f x w)) = files w"
  shows "files (snd (bind_io m f w)) = files w"
proof (cases "m w")
  case (Pair r w1)
  with assms(1) [of w] have "files w1 = files w" by simp
  with Pair assms(2) show ?thesis by (cases r) (simp_all add: bind_io_def)
qed

lemma try_io_files:
  assumes "\<And>w. files (snd (m w)) = files w" and "\<And>e w. files (snd (h e w)) = files w"
  shows "files (snd (try_io m h w)) = files w"
proof (cases "m w")
  case (Pair r w1)
  with assms(1) [of w] have "files w1 = files w" by simp
  with Pair assms(2) show ?thesis by (cases r) (simp_all add: try_io_def)
qed

lemma return_io_files: "files (snd (return_io x w)) = files w"
  by (simp add: return_io_def)

lemma db_run_files: "files (snd (db_run env s sem w)) = files w"
  by (cases "db_api env (trace w) s"; cases "sem (table w)")
     (auto simp: db_run_def Let_def log_event_def)

lemma embed_query_files: "files (snd (embed_query env s w)) = files w"
  by (simp add: embed_query_def log_event_def)

lemma kickoff_files: "files (snd (kickoff env t w)) = files w"
  by (simp add: kickoff_def log_event_def)

lemma arxiv_search_files: "files (snd (arxiv_search env q n w)) = files w"
  by (simp add: arxiv_search_def log_event_def)

lemmas files_intros = bind_io_files try_io_files return_io_files db_run_files
  embed_query_files kickoff_files arxiv_search_files

lemma insert_article_files: "files (snd (insert_article env a kw emb w)) = files w"
  unfolding insert_article_def by (intro files_intros)

lemma embed_and_store_article_files: "files (snd (embed_and_store_article env a kw w)) = files w"
  unfolding embed_and_store_article_def by (intro files_intros insert_article_files)

lemma store_loop_files: "files (snd (store_loop env kw as n w)) = files w"
proof (induction as arbitrary: n w)
  case Nil
  show ?case by simp
next
  case (Cons a as)
  show ?case
    using embed_and_store_article_files [of env a kw w] Cons.IH
    by (cases "embed_and_store_article env a kw w"; cases "fst (embed_and_store_article env a kw w)")
       auto
qed

lemma search_arxiv_files: "files (snd (search_arxiv env kw n w)) = files w"
  unfolding search_arxiv_def by (intro files_intros)

lemma search_arxiv_tool_files: "files (snd (search_arxiv_tool env args w)) = files w"
  unfolding search_arxiv_tool_def Let_def
  by (cases "arg_keyword args") (auto intro!: files_intros)

lemma call_tool_files: "files (snd (call_tool env args w)) = files w"
proof -
  have handler: "files (snd (search_arxiv_tool env args (log_event McpCallTool w))) = files w"
    by (simp add: search_arxiv_tool_files log_event_def)
  obtain r w' where run: "search_arxiv_tool env args (log_event McpCallTool w) = (r, w')"
    by (cases "search_arxiv_tool env args (log_event McpCallTool w)")
  with handler have "files w' = files w" by simp
  with run show ?thesis
    by (cases "mcp_call_api env (trace w)"; cases r)
       (simp_all add: call_tool_def log_event_def)
qed

lemma client_search_arxiv_files: "files (snd (client_search_arxiv env kw n w)) = files w"
  unfolding client_search_arxiv_def
  by (intro files_intros call_tool_files)
     (auto split: tool_text.splits tool_reply.splits simp: return_io_def raise_io_def)

lemma search_arxiv_sync_files: "files (snd (search_arxiv_sync env kw n w)) = files w"
  by (cases "mcp_session_api env (trace w)")
     (simp_all add: search_arxiv_sync_def client_search_arxiv_files log_event_def)

lemma search_files: "files (snd (search env kw n w)) = files w"
  by (simp add: search_def search_arxiv_files search_arxiv_sync_files)

lemma execute_collection_files: "files (snd (execute_collection env self w)) = files w"
  unfolding execute_collection_def Let_def store_multiple_articles_def
  by (intro files_intros search_files) (auto intro!: files_intros store_loop_files)

lemma get_context_for_summary_files:
  "files (snd (get_context_for_summary env t kw w)) = files w"
  unfolding get_context_for_summary_def retrieve_relevant_articles_def
    search_similar_articles_def
  by (intro files_intros)

lemma summarize_article_files: "files (snd (summarize_article env a self w)) = files w"
  unfolding summarize_article_def by (intro files_intros get_context_for_summary_files)

lemma summarize_loop_files: "files (snd (summarize_loop env as self w)) = files w"
proof (induction as arbitrary: self w)
  case Nil
  show ?case by simp
next
  case (Cons a as)
  show ?case
    using summarize_article_files [of env a self w] Cons.IH
    by (cases "summarize_article env a self w"; cases "fst (summarize_article env a self w)")
       auto
qed

lemma execute_summarization_files: "files (snd (execute_summarization env self w)) = files w"
  unfolding execute_summarization_def
  by (auto intro!: files_intros summarize_loop_files)

lemma execute_quick_summary_files: "files (snd (execute_quick_summary env self w)) = files w"
  unfolding execute_quick_summary_def by (auto intro!: files_intros)

lemma execute_global_synthesis_files:
  "files (snd (execute_global_synthesis env self w)) = files w"
  unfolding execute_global_synthesis_def by (auto intro!: files_intros)

subsection \<open>Failures of the language model\<close>

lemma agent_quick_task: "agent (quick_task kw arts) = SummarizerAgent"
  by (simp add: quick_task_def Let_def)

lemma agent_synthesis_task: "agent (synthesis_task kw ss) = SynthesizerAgent"
  by (simp add: synthesis_task_def Let_def)

lemma embed_and_store_article_returns:
  "\<exists>stored w'. embed_and_store_article env a kw w = (Inr stored, w')"
  unfolding embed_and_store_article_def by (rule try_io_return_total)

lemma store_loop_returns: "\<exists>n' w'. store_loop env kw as n w = (Inr n', w')"
proof (induction as arbitrary: n w)
  case Nil
  show ?case by simp
next
  case (Cons a as)
  obtain stored w1 where "embed_and_store_article env a kw w = (Inr stored, w1)"
    using embed_and_store_article_returns by blast
  then show ?case using Cons.IH by simp
qed

lemma search_arxiv_result:
  "search_arxiv env kw n w =
     (Inr (case arxiv_api env (trace w) kw n of Inl e \<Rightarrow> [] | Inr rs \<Rightarrow> map direct_article rs),
      log_event (Search kw n) w)"
  by (simp add: search_arxiv_def arxiv_search_def io_defs split: sum.splits)

lemma execute_collection_direct:
  assumes "\<not> use_mcp_arxiv env"
    and "arxiv_api env (trace w) (self_keyword self) (self_max_articles self) = Inr rs"
  shows "\<exists>w1. execute_collection env self w =
           (Inr (map direct_article rs, self\<lparr>self_articles := map direct_article rs\<rparr>), w1)"
proof (cases "rs = []")
  case True
  with assms show ?thesis
    by (simp add: execute_collection_def search_def search_arxiv_result io_defs)
next
  case False
  obtain n' w1 where "store_loop env (self_keyword self) (map direct_article rs) 0
      (log_event (Search (self_keyword self) (self_max_articles self)) w) = (Inr n', w1)"
    using store_loop_returns by blast
  with assms False show ?thesis
    by (simp add: execute_collection_def search_def search_arxiv_result io_defs
          store_multiple_articles_def)
qed

lemma execute_quick_summary_llm:
  assumes "self_articles self \<noteq> []"
  shows "execute_quick_summary env self w =
     (llm_api env (trace w) (quick_task (self_keyword self) (self_articles self)),
      log_event (Kickoff (quick_task (self_keyword self) (self_articles self))) w)"
  using assms by (simp add: execute_quick_summary_def kickoff_def)

lemma execute_global_synthesis_llm:
  assumes "self_article_summaries self \<noteq> []"
  shows "execute_global_synthesis env self w =
     (llm_api env (trace w) (synthesis_task (self_keyword self) (self_article_summaries self)),
      log_event (Kickoff (synthesis_task (self_keyword self) (self_article_summaries self))) w)"
  using assms by (simp add: execute_global_synthesis_def kickoff_def)

lemma execute_summarization_state:
  assumes "execute_summarization env self w = (Inr (out, self'), w')"
    and "self_articles self \<noteq> []"
  shows "self_article_summaries self' = out \<and> out \<noteq> [] \<and> self_keyword self' = self_keyword self"
proof -
  from assms have loop: "summarize_loop env (self_articles self) self w = (Inr self', w')"
    and out: "out = self_article_summaries self'"
    by (auto simp: execute_summarization_result split: prod.splits sum.splits)
  from summarize_loop_Inr [OF loop] obtain new where
    "self' = self\<lparr>self_article_summaries := self_article_summaries self @ new\<rparr>"
    "map title new = map title (self_articles self)"
    by blast
  with assms(2) out show ?thesis by auto
qed

text \<open>The search endpoint around the workflow.\<close>

lemma search_articles_valid:
  assumes "req_keyword request \<noteq> []" and "py_strip (req_keyword request) \<noteq> []"
    and "1 \<le> req_max_articles request" and "req_max_articles request \<le> 50"
  shows "search_articles env request w =
     (case VeilleScientifiqueCrew env (req_keyword request) (req_max_articles request) w of
        (Inl e, w1) \<Rightarrow>
          (Inl (HTTPException 500 (lit ''Erreur lors du traitement : '' @ py_str_exc env e)), w1)
      | (Inr crew, w1) \<Rightarrow>
          (case run_complete_workflow env crew w1 of
             (Inl e, w2) \<Rightarrow>
               (Inl (HTTPException 500 (lit ''Erreur lors du traitement : '' @ py_str_exc env e)),
                w2)
           | (Inr results, w2) \<Rightarrow> (Inr results, w2)))"
  using assms
  by (simp add: search_articles_def io_defs split: prod.splits sum.splits)

text \<open>
  C2 (as amended). A failure of one of the three summarization calls is not confined to
  its stage. When the quick digest, the summarization stage or the synthesis raises,
  \<^verbatim>\<open>run_complete_workflow\<close> raises the same exception in the world that stage left: it
  returns no result, the results of the earlier stages are dropped with it, and no
  report file has been written. The search endpoint then answers with status 500.
\<close>

theorem summarizer_failure_propagates:
  assumes coll: "execute_collection env self w = (Inr (found, self1), w1)"
    and ne: "found \<noteq> []"
  shows "(execute_quick_summary env self1 w1 = (Inl e, w2) \<longrightarrow>
            run_complete_workflow env self w = (Inl e, w2) \<and> files w2 = files w) \<and>
         (execute_quick_summary env self1 w1 = (Inr quick, w2) \<and>
          execute_summarization env self1 w2 = (Inl e, w3) \<longrightarrow>
            run_complete_workflow env self w = (Inl e, w3) \<and> files w3 = files w) \<and>
         (execute_quick_summary env self1 w1 = (Inr quick, w2) \<and>
          execute_summarization env self1 w2 = (Inr (summaries, self2), w3) \<and>
          execute_global_synthesis env self2 w3 = (Inl e, w4) \<longrightarrow>
            run_complete_workflow env self w = (Inl e, w4) \<and> files w4 = files w) \<and>
         (VeilleScientifiqueCrew env kw n w0 = (Inr self, w) \<and>
          kw \<noteq> [] \<and> py_strip kw \<noteq> [] \<and> 1 \<le> n \<and> n \<le> 50 \<and>
          run_complete_workflow env self w = (Inl e, w') \<longrightarrow>
            search_articles env \<lparr>req_keyword = kw, req_max_articles = n\<rparr> w0 =
              (Inl (HTTPException 500
                      (lit ''Erreur lors du traitement : '' @ py_str_exc env e)), w'))"
proof (intro conjI impI)
  have f1: "files w1 = files w"
    using execute_collection_files [of env self w] coll by simp
  {
    assume q: "execute_quick_summary env self1 w1 = (Inl e, w2)"
    show "run_complete_workflow env self w = (Inl e, w2)"
      using coll ne q by (rule run_quick_raises)
    show "files w2 = files w"
      using execute_quick_summary_files [of env self1 w1] q f1 by simp
  }
  {
    assume a: "execute_quick_summary env self1 w1 = (Inr quick, w2) \<and>
          execute_summarization env self1 w2 = (Inl e, w3)"
    then have q: "execute_quick_summary env self1 w1 = (Inr quick, w2)"
      and s: "execute_summarization env self1 w2 = (Inl e, w3)" by simp_all
    show "run_complete_workflow env self w = (Inl e, w3)"
      using coll ne q s by (rule run_summarization_raises)
    show "files w3 = files w"
      using execute_quick_summary_files [of env self1 w1] q f1
        execute_summarization_files [of env self1 w2] s by simp
  }
  {
    assume a: "execute_quick_summary env self1 w1 = (Inr quick, w2) \<and>
          execute_summarization env self1 w2 = (Inr (summaries, self2), w3) \<and>
          execute_global_synthesis env self2 w3 = (Inl e, w4)"
    then have q: "execute_quick_summary env self1 w1 = (Inr quick, w2)"
      and s: "execute_summarization env self1 w2 = (Inr (summaries, self2), w3)"
      and g: "execute_global_synthesis env self2 w3 = (Inl e, w4)" by simp_all
    show "run_complete_workflow env self w = (Inl e, w4)"
      using coll ne q s g by (rule run_synthesis_raises)
    show "files w4 = files w"
      using execute_quick_summary_files [of env self1 w1] q f1
        execute_summarization_files [of env self1 w2] s
        execute_global_synthesis_files [of env self2 w3] g by simp
  }
  {
    assume a: "VeilleScientifiqueCrew env kw n w0 = (Inr self, w) \<and>
          kw \<noteq> [] \<and> py_strip kw \<noteq> [] \<and> 1 \<le> n \<and> n \<le> 50 \<and>
          run_complete_workflow env self w = (Inl e, w')"
    then show "search_articles env \<lparr>req_keyword = kw, req_max_articles = n\<rparr> w0 =
              (Inl (HTTPException 500
                      (lit ''Erreur lors du traitement : '' @ py_str_exc env e)), w')"
      by (simp add: search_articles_valid)
  }
qed

subsection \<open>The search endpoint\<close>

text \<open>
  C1 (what the code does). A request whose keyword is empty or white space, or whose
  \<^verbatim>\<open>max_articles\<close> is outside 1..50, never reaches the pipeline and leaves the world
  untouched; but the \<^verbatim>\<open>HTTPException\<close> with status 400 is raised inside the \<^verbatim>\<open>try\<close>
  and caught by its \<^verbatim>\<open>except Exception\<close>, so the endpoint answers with status 500.
\<close>

theorem search_articles_invalid_request:
  assumes "req_keyword request = [] \<or> py_strip (req_keyword request) = [] \<or>
           req_max_articles request < 1 \<or> 50 < req_max_articles request"
  shows "\<exists>detail. search_articles env request w = (Inl (HTTPException 500 detail), w) \<and>
           detail = lit ''Erreur lors du traitement : ''
                    @ http_exc_str env 400
                        (if req_keyword request = [] \<or> py_strip (req_keyword request) = []
                         then keyword_empty else count_out_of_range) \<and>
           response_status (fst (search_articles env request w)) = 500"
  using assms
  by (auto simp: search_articles_def io_defs py_str_exc_def response_status_def)

subsection \<open>The two search paths\<close>

lemma search_arxiv_tool_result:
  "kw \<noteq> [] \<Longrightarrow>
   search_arxiv_tool env \<lparr>arg_keyword = Some kw, arg_max_results = Some n\<rparr> w =
        (Inr (case arxiv_api env (trace w) kw (min n 50) of
                Inl e \<Rightarrow>
                  ReplyError (lit ''Erreur lors de la recherche arXiv: '' @ py_str_exc env e)
              | Inr rs \<Rightarrow> ReplySuccess kw (length rs) (map mcp_article rs)),
         log_event (Search kw (min n 50)) w)"
  by (simp add: search_arxiv_tool_def arxiv_search_def io_defs Let_def split: sum.splits)

lemma search_arxiv_tool_no_keyword:
  "search_arxiv_tool env \<lparr>arg_keyword = Some [], arg_max_results = Some n\<rparr> w =
     (Inr (ReplyError keyword_required), w)"
  by (simp add: search_arxiv_tool_def return_io_def)

lemma client_search_arxiv_refused:
  assumes "mcp_call_api env (trace w) = None" and "n < 1 \<or> 50 < n"
  shows "client_search_arxiv env kw n w = (Inr [], log_event McpCallTool w)"
  using assms
  by (auto simp add: client_search_arxiv_def call_tool_def valid_arguments_def io_defs)

lemma client_search_arxiv_no_keyword:
  assumes "mcp_call_api env (trace w) = None" and "1 \<le> n" and "n \<le> 50"
  shows "client_search_arxiv env [] n w = (Inr [], log_event McpCallTool w)"
  using assms
  by (simp add: client_search_arxiv_def call_tool_def valid_arguments_def io_defs
        search_arxiv_tool_no_keyword)

lemma client_search_arxiv_served:
  assumes "mcp_call_api env (trace w) = None" and "1 \<le> n" and "n \<le> 50" and "kw \<noteq> []"
  shows "client_search_arxiv env kw n w =
     (Inr (case arxiv_api env (trace w @ [McpCallTool]) kw n of
             Inl e \<Rightarrow> [] | Inr rs \<Rightarrow> map mcp_article rs),
      log_event (Search kw n) (log_event McpCallTool w))"
  using assms
  by (simp add: client_search_arxiv_def call_tool_def valid_arguments_def io_defs
        search_arxiv_tool_result log_event_def split: sum.splits)

text \<open>
  C4 (as amended). An article of the MCP path has the seven fields of the article the
  direct path builds from the same result, with the same values, and one more:
  \<^verbatim>\<open>primary_category\<close>. The direct path asks arXiv for \<^verbatim>\<open>max_results\<close> results, the
  limit as given, whatever it is. The handler of the MCP server asks for
  \<^verbatim>\<open>min(max_results, 50)\<close> and answers an empty keyword with an error, without a search;
  but a call of the MCP path reaches the handler only with a limit from 1 to 50, where
  the minimum is the limit itself: for such a limit and a keyword that is not empty the
  MCP path asks arXiv for \<^verbatim>\<open>max_results\<close> results and returns the server's articles as
  they are, and for any other limit, as for an empty keyword, it returns the empty list
  and no search is made.
\<close>

theorem search_paths_related:
  "mcp_article r = (direct_article r)\<lparr>primary_category := Some (result_primary_category r)\<rparr> \<and>
   article_keys (mcp_article r) = article_keys (direct_article r) @ [''primary_category''] \<and>
   search_arxiv env kw n w =
     (Inr (case arxiv_api env (trace w) kw n of
             Inl e \<Rightarrow> [] | Inr rs \<Rightarrow> map direct_article rs),
      log_event (Search kw n) w) \<and>
   (kw \<noteq> [] \<longrightarrow>
      search_arxiv_tool env \<lparr>arg_keyword = Some kw, arg_max_results = Some n\<rparr> w =
        (Inr (case arxiv_api env (trace w) kw (min n 50) of
                Inl e \<Rightarrow>
                  ReplyError (lit ''Erreur lors de la recherche arXiv: '' @ py_str_exc env e)
              | Inr rs \<Rightarrow> ReplySuccess kw (length rs) (map mcp_article rs)),
         log_event (Search kw (min n 50)) w)) \<and>
   search_arxiv_tool env \<lparr>arg_keyword = Some [], arg_max_results = Some n\<rparr> w =
     (Inr (ReplyError keyword_required), w) \<and>
   (mcp_session_api env (trace w) = Done \<and>
    mcp_call_api env (trace w @ [McpSession]) = None \<longrightarrow>
      search_arxiv_sync env kw n w =
        (if 1 \<le> n \<and> n \<le> 50 \<and> kw \<noteq> []
         then (Inr (case arxiv_api env (trace w @ [McpSession, McpCallTool]) kw n of
                      Inl e \<Rightarrow> [] | Inr rs \<Rightarrow> map mcp_article rs),
               log_event (Search kw n) (log_event McpCallTool (log_event McpSession w)))
         else (Inr [], log_event McpCallTool (log_event McpSession w))))"
proof (intro conjI impI)
  show "mcp_article r = (direct_article r)\<lparr>primary_category := Some (result_primary_category r)\<rparr>"
    by (simp add: mcp_article_def direct_article_def)
  show "article_keys (mcp_article r) = article_keys (direct_article r) @ [''primary_category'']"
    by (simp add: article_keys_def mcp_article_def direct_article_def)
next
  show "search_arxiv env kw n w =
        (Inr (case arxiv_api env (trace w) kw n of
                Inl e \<Rightarrow> [] | Inr rs \<Rightarrow> map direct_article rs),
         log_event (Search kw n) w)"
    by (rule search_arxiv_result)
next
  assume "kw \<noteq> []"
  then show "search_arxiv_tool env \<lparr>arg_keyword = Some kw, arg_max_results = Some n\<rparr> w =
        (Inr (case arxiv_api env (trace w) kw (min n 50) of
                Inl e \<Rightarrow>
                  ReplyError (lit ''Erreur lors de la recherche arXiv: '' @ py_str_exc env e)
              | Inr rs \<Rightarrow> ReplySuccess kw (length rs) (map mcp_article rs)),
         log_event (Search kw (min n 50)) w)"
    by (rule search_arxiv_tool_result)
next
  show "search_arxiv_tool env \<lparr>arg_keyword = Some [], arg_max_results = Some n\<rparr> w =
     (Inr (ReplyError keyword_required), w)"
    by (rule search_arxiv_tool_no_keyword)
next
  assume a: "mcp_session_api env (trace w) = Done \<and>
    mcp_call_api env (trace w @ [McpSession]) = None"
  let ?w1 = "log_event McpSession w"
  have call: "mcp_call_api env (trace ?w1) = None"
    using a by (simp add: log_event_def)
  have sync: "search_arxiv_sync env kw n w = client_search_arxiv env kw n ?w1"
    using a by (simp add: search_arxiv_sync_def)
  have tr: "trace ?w1 @ [McpCallTool] = trace w @ [McpSession, McpCallTool]"
    by (simp add: log_event_def)
  consider (served) "1 \<le> n" "n \<le> 50" "kw \<noteq> []"
    | (empty) "1 \<le> n" "n \<le> 50" "kw = []"
    | (refused) "n < 1 \<or> 50 < n"
    by linarith
  then show "search_arxiv_sync env kw n w =
        (if 1 \<le> n \<and> n \<le> 50 \<and> kw \<noteq> []
         then (Inr (case arxiv_api env (trace w @ [McpSession, McpCallTool]) kw n of
                      Inl e \<Rightarrow> [] | Inr rs \<Rightarrow> map mcp_article rs),
               log_event (Search kw n) (log_event McpCallTool (log_event McpSession w)))
         else (Inr [], log_event McpCallTool (log_event McpSession w)))"
  proof cases
    case served
    then show ?thesis
      unfolding sync using client_search_arxiv_served [OF call served] by (simp add: tr)
  next
    case empty
    then show ?thesis
      unfolding sync using client_search_arxiv_no_keyword [OF call empty(1,2)] by simp
  next
    case refused
    then show ?thesis
      unfolding sync using client_search_arxiv_refused [OF call refused] by auto
  qed
qed


section \<open>Runs on concrete inputs\<close>



text \<open>What the example collaborators answer.\<close>

lemma fine_env_llm: "llm_api fine_env h t = Inr (lit ''A summary.'')"
  by (simp add: fine_env_def)


lemma fresh_world_fields: "trace fresh_world = []" "table fresh_world = Some []"
  "files fresh_world = []"
  by (simp_all add: fresh_world_def)

lemma synthesis_down_env_fields:
  "\<not> use_mcp_arxiv synthesis_down_env"
  "arxiv_api synthesis_down_env h q n = Inr [result1, result2]"
  "llm_api synthesis_down_env h t =
     (if agent t = SynthesizerAgent then Inl timeout_error else Inr (lit ''A summary.''))"
  by (simp_all add: synthesis_down_env_def fine_env_def)

lemma llm_down_env_fields:
  "\<not> use_mcp_arxiv llm_down_env"
  "arxiv_api llm_down_env h q n = Inr [result1, result2]"
  "llm_api llm_down_env h t = Inl timeout_error"
  by (simp_all add: llm_down_env_def fine_env_def)

lemma fine_env_fields:
  "\<not> use_mcp_arxiv fine_env"
  "arxiv_api fine_env h q n = Inr [result1, result2]"
  "makedirs_api fine_env h d = None"
  "mcp_session_api fine_env h = Done"
  "mcp_call_api fine_env h = None"
  "http_exc_str fine_env = status_and_detail"
  by (simp_all add: fine_env_def)

lemma lit_spaces: "py_strip (lit ''   '') = []"
  by (simp add: py_strip_def lit_def is_space_def)

lemma strip_quantum: "quantum \<noteq> []" "py_strip quantum \<noteq> []"
  by (simp_all add: py_strip_def quantum_def lit_def is_space_def)

text \<open>arXiv has nothing for the keyword: the collection yields no article and the
  workflow returns the fixed failure, having made the search call only.\<close>

theorem no_articles_terminal_failure_witness:
  "execute_collection no_result_env unknown_crew fresh_world =
     (Inr ([], unknown_crew), log_event (Search (self_keyword unknown_crew) 5) fresh_world) \<and>
   run_complete_workflow no_result_env unknown_crew fresh_world =
     (Inr \<lparr>success = False, keyword = None, articles_count = None,
           quick_summary =
             Some (lit ''Aucun article trouv'' @ [233] @ lit '' pour ce mot-cl'' @ [233]
                   @ lit ''.''),
           global_synthesis = None, article_summaries = None, pdf_path = None,
           error = Some (lit ''Aucun article trouv'' @ [233])\<rparr>,
      log_event (Search (self_keyword unknown_crew) 5) fresh_world)"
proof -
  have env: "\<not> use_mcp_arxiv no_result_env" "arxiv_api no_result_env h q n = Inr []" for h q n
    by (simp_all add: no_result_env_def fine_env_def)
  have coll: "execute_collection no_result_env unknown_crew fresh_world =
     (Inr ([], unknown_crew), log_event (Search (self_keyword unknown_crew) 5) fresh_world)"
    by (simp add: execute_collection_def search_def search_arxiv_result io_defs env
          unknown_crew_def)
  from no_articles_terminal_failure [OF coll] coll show ?thesis by simp
qed

text \<open>The two collected articles are summarised: the summaries carry their authors, dates
  and links.\<close>

theorem summaries_keep_article_fields_witness:
  "\<exists>out self' w'.
     execute_summarization fine_env loaded_crew fresh_world = (Inr (out, self'), w') \<and>
     map authors out = [[lit ''A. Kitaev'', lit ''P. Shor''], [lit ''R. Raussendorf'']] \<and>
     map published out = [lit ''2024-05-02'', lit ''2024-05-01''] \<and>
     map pdf_url out = [Some (lit ''http://arxiv.org/pdf/2405.00001''), None]"
proof -
  have "\<forall>h t. agent t = SummarizerAgent \<longrightarrow> (\<exists>s. llm_api fine_env h t = Inr s)"
    by (simp add: fine_env_llm)
  from execute_summarization_total [OF this, of loaded_crew fresh_world]
  obtain out self' w' where
    run: "execute_summarization fine_env loaded_crew fresh_world = (Inr (out, self'), w')"
    by blast
  have arts: "self_articles loaded_crew = [article1, article2]"
    "self_article_summaries loaded_crew = []"
    by (simp_all add: loaded_crew_def quantum_crew_def)
  from summaries_keep_article_fields [OF run]
  have "map authors out = [[lit ''A. Kitaev'', lit ''P. Shor''], [lit ''R. Raussendorf'']] \<and>
     map published out = [lit ''2024-05-02'', lit ''2024-05-01''] \<and>
     map pdf_url out = [Some (lit ''http://arxiv.org/pdf/2405.00001''), None]"
    by (simp add: arts article1_def article2_def direct_article_def result1_def result2_def)
  with run show ?thesis
    by (intro exI [of _ out] exI [of _ self'] exI [of _ w']) simp
qed



text \<open>C2 as stated fails: when only the synthesis call raises, the workflow raises; there
  is no result and no report file.\<close>

theorem synthesis_failure_counterexample:
  "fst (run_complete_workflow synthesis_down_env quantum_crew fresh_world) = Inl timeout_error \<and>
   files (snd (run_complete_workflow synthesis_down_env quantum_crew fresh_world)) = []"
proof -
  let ?env = synthesis_down_env
  let ?found = "map direct_article [result1, result2]"
  let ?self1 = "quantum_crew\<lparr>self_articles := ?found\<rparr>"
  obtain w1 where coll: "execute_collection ?env quantum_crew fresh_world
      = (Inr (?found, ?self1), w1)"
    using execute_collection_direct [of ?env fresh_world quantum_crew "[result1, result2]"]
    by (auto simp: synthesis_down_env_fields)
  have ne: "?found \<noteq> []" and arts: "self_articles ?self1 \<noteq> []" by simp_all
  have quick: "execute_quick_summary ?env ?self1 w1
      = (Inr (lit ''A summary.''),
         log_event (Kickoff (quick_task (self_keyword ?self1) (self_articles ?self1))) w1)"
    unfolding execute_quick_summary_llm [OF arts]
    by (simp add: synthesis_down_env_fields agent_quick_task)
  let ?w2 = "log_event (Kickoff (quick_task (self_keyword ?self1) (self_articles ?self1))) w1"
  have "\<forall>h t. agent t = SummarizerAgent \<longrightarrow> (\<exists>s. llm_api ?env h t = Inr s)"
    by (simp add: synthesis_down_env_fields)
  from execute_summarization_total [OF this, of ?self1 ?w2]
  obtain out self2 w3 where
    summ: "execute_summarization ?env ?self1 ?w2 = (Inr (out, self2), w3)"
    by blast
  from execute_summarization_state [OF summ arts]
  have held: "self_article_summaries self2 \<noteq> []" by simp
  have synth: "execute_global_synthesis ?env self2 w3
      = (Inl timeout_error,
         log_event (Kickoff (synthesis_task (self_keyword self2) (self_article_summaries self2)))
           w3)"
    unfolding execute_global_synthesis_llm [OF held]
    by (simp add: synthesis_down_env_fields agent_synthesis_task)
  have run: "run_complete_workflow ?env quantum_crew fresh_world
      = (Inl timeout_error,
         log_event (Kickoff (synthesis_task (self_keyword self2) (self_article_summaries self2)))
           w3)"
    using coll ne quick summ synth by (rule run_synthesis_raises)
  have "files w1 = []"
    using execute_collection_files [of ?env quantum_crew fresh_world] coll
    by (simp add: fresh_world_fields)
  then have "files w3 = []"
    using execute_summarization_files [of ?env ?self1 ?w2] summ by (simp add: log_event_def)
  with run show ?thesis by (simp add: log_event_def)
qed

text \<open>The synthesis call raises, and then the quick digest call: the workflow raises each
  time and no file is written.\<close>

theorem summarizer_failure_propagates_witness:
  "fst (run_complete_workflow synthesis_down_env quantum_crew fresh_world) = Inl timeout_error \<and>
   files (snd (run_complete_workflow synthesis_down_env quantum_crew fresh_world))
     = files fresh_world \<and>
   fst (run_complete_workflow llm_down_env quantum_crew fresh_world) = Inl timeout_error \<and>
   files (snd (run_complete_workflow llm_down_env quantum_crew fresh_world))
     = files fresh_world"
proof -
  let ?found = "map direct_article [result1, result2]"
  let ?self1 = "quantum_crew\<lparr>self_articles := ?found\<rparr>"
  have ne: "?found \<noteq> []" and arts: "self_articles ?self1 \<noteq> []" by simp_all
  have first: "fst (run_complete_workflow synthesis_down_env quantum_crew fresh_world)
        = Inl timeout_error \<and>
      files (snd (run_complete_workflow synthesis_down_env quantum_crew fresh_world))
        = files fresh_world"
  proof -
    let ?env = synthesis_down_env
    obtain w1 where coll: "execute_collection ?env quantum_crew fresh_world
        = (Inr (?found, ?self1), w1)"
      using execute_collection_direct [of ?env fresh_world quantum_crew "[result1, result2]"]
      by (auto simp: synthesis_down_env_fields)
    let ?w2 = "log_event (Kickoff (quick_task (self_keyword ?self1) (self_articles ?self1))) w1"
    have quick: "execute_quick_summary ?env ?self1 w1 = (Inr (lit ''A summary.''), ?w2)"
      unfolding execute_quick_summary_llm [OF arts]
      by (simp add: synthesis_down_env_fields agent_quick_task)
    have "\<forall>h t. agent t = SummarizerAgent \<longrightarrow> (\<exists>s. llm_api ?env h t = Inr s)"
      by (simp add: synthesis_down_env_fields)
    from execute_summarization_total [OF this, of ?self1 ?w2]
    obtain out self2 w3 where
      summ: "execute_summarization ?env ?self1 ?w2 = (Inr (out, self2), w3)"
      by blast
    from execute_summarization_state [OF summ arts]
    have held: "self_article_summaries self2 \<noteq> []" by simp
    let ?w4 = "log_event
        (Kickoff (synthesis_task (self_keyword self2) (self_article_summaries self2))) w3"
    have synth: "execute_global_synthesis ?env self2 w3 = (Inl timeout_error, ?w4)"
      unfolding execute_global_synthesis_llm [OF held]
      by (simp add: synthesis_down_env_fields agent_synthesis_task)
    from summarizer_failure_propagates [OF coll ne,
        where quick = "lit ''A summary.''" and ?w2.0 = ?w2 and summaries = out
          and ?self2.0 = self2 and ?w3.0 = w3 and e = timeout_error and ?w4.0 = ?w4]
      quick summ synth
    show ?thesis by simp
  qed
  have second: "fst (run_complete_workflow llm_down_env quantum_crew fresh_world)
        = Inl timeout_error \<and>
      files (snd (run_complete_workflow llm_down_env quantum_crew fresh_world))
        = files fresh_world"
  proof -
    let ?env = llm_down_env
    obtain w1 where coll: "execute_collection ?env quantum_crew fresh_world
        = (Inr (?found, ?self1), w1)"
      using execute_collection_direct [of ?env fresh_world quantum_crew "[result1, result2]"]
      by (auto simp: llm_down_env_fields)
    let ?w2 = "log_event (Kickoff (quick_task (self_keyword ?self1) (self_articles ?self1))) w1"
    have quick: "execute_quick_summary ?env ?self1 w1 = (Inl timeout_error, ?w2)"
      unfolding execute_quick_summary_llm [OF arts]
      by (simp add: llm_down_env_fields)
    from summarizer_failure_propagates [OF coll ne, where e = timeout_error and ?w2.0 = ?w2]
      quick
    show ?thesis by simp
  qed
  from first second show ?thesis by simp
qed


text \<open>An empty keyword, a keyword of spaces, and the limits 51 and 0: status 500 each
  time, in an unchanged world.\<close>

theorem search_articles_invalid_request_witness:
  "search_articles fine_env \<lparr>req_keyword = [], req_max_articles = 10\<rparr> fresh_world
     = (Inl (HTTPException 500
               (lit ''Erreur lors du traitement : '' @ lit ''400: '' @ keyword_empty)),
        fresh_world) \<and>
   response_status
     (fst (search_articles fine_env \<lparr>req_keyword = [], req_max_articles = 10\<rparr> fresh_world))
     = 500 \<and>
   response_status
     (fst (search_articles fine_env \<lparr>req_keyword = lit ''   '', req_max_articles = 10\<rparr>
             fresh_world)) = 500 \<and>
   search_articles fine_env \<lparr>req_keyword = quantum, req_max_articles = 51\<rparr> fresh_world
     = (Inl (HTTPException 500
               (lit ''Erreur lors du traitement : '' @ lit ''400: '' @ count_out_of_range)),
        fresh_world) \<and>
   response_status
     (fst (search_articles fine_env \<lparr>req_keyword = quantum, req_max_articles = 0\<rparr>
             fresh_world)) = 500"
proof -
  have str: "http_exc_str fine_env 400 d = lit ''400: '' @ d" for d
    by (simp add: fine_env_fields status_and_detail_def lit_def)
  from search_articles_invalid_request
    [of "\<lparr>req_keyword = [], req_max_articles = 10\<rparr>" fine_env fresh_world]
  have a: "search_articles fine_env \<lparr>req_keyword = [], req_max_articles = 10\<rparr> fresh_world
     = (Inl (HTTPException 500
               (lit ''Erreur lors du traitement : '' @ lit ''400: '' @ keyword_empty)),
        fresh_world) \<and>
   response_status
     (fst (search_articles fine_env \<lparr>req_keyword = [], req_max_articles = 10\<rparr> fresh_world))
     = 500"
    by (simp add: str response_status_def)
  from search_articles_invalid_request
    [of "\<lparr>req_keyword = lit ''   '', req_max_articles = 10\<rparr>" fine_env fresh_world]
  have b: "response_status
     (fst (search_articles fine_env \<lparr>req_keyword = lit ''   '', req_max_articles = 10\<rparr>
             fresh_world)) = 500"
    by (simp add: lit_spaces response_status_def)
  from search_articles_invalid_request
    [of "\<lparr>req_keyword = quantum, req_max_articles = 51\<rparr>" fine_env fresh_world]
  have c: "search_articles fine_env \<lparr>req_keyword = quantum, req_max_articles = 51\<rparr> fresh_world
     = (Inl (HTTPException 500
               (lit ''Erreur lors du traitement : '' @ lit ''400: '' @ count_out_of_range)),
        fresh_world)"
    by (simp add: str strip_quantum)
  from search_articles_invalid_request
    [of "\<lparr>req_keyword = quantum, req_max_articles = 0\<rparr>" fine_env fresh_world]
  have d: "response_status
     (fst (search_articles fine_env \<lparr>req_keyword = quantum, req_max_articles = 0\<rparr>
             fresh_world)) = 500"
    by (simp add: response_status_def)
  from a b c d show ?thesis by (simp add: response_status_def)
qed

lemma article1_lengths:
  "length (entry_id article1) \<le> 255" "length (published article1) \<le> 20"
  by (simp_all add: article1_def direct_article_def result1_def lit_def)

lemma keyword_lengths:
  "length quantum \<le> 255" "length (lit ''surface codes'') \<le> 255"
  by (simp_all add: quantum_def lit_def)

lemma vector_lengths: "length east = 1536" "length north = 1536"
  by (simp_all add: east_def north_def)

lemma long_keyword_refused:
  "\<not> (length long_keyword \<le> 255 \<or> list_all (\<lambda>c. c = 32) (drop 255 long_keyword))"
  by (simp add: long_keyword_def list_all_iff)

lemma padded_keyword_fits:
  "list_all (\<lambda>c. c = 32) (drop 255 padded_keyword)"
  "take 255 padded_keyword = replicate 255 97"
  by (simp_all add: padded_keyword_def list_all_iff)

lemma held_world_fields:
  "trace held_world = []"
  "table held_world = Some [insert_row article2 quantum north, insert_row article1 quantum east]"
  by (simp_all add: held_world_def)

lemma article_ids_differ: "entry_id article2 \<noteq> entry_id article1"
  by (simp add: article1_def article2_def direct_article_def result1_def result2_def lit_def)

lemma fine_env_db: "db_api fine_env h s = Done"
  by (simp add: fine_env_def)

text \<open>C6 as stated fails: the first article is in the table, and inserting it again
  under a keyword of 300 letters, or with an embedding of two components, returns
  \<^verbatim>\<open>False\<close>.\<close>

theorem upsert_refused_counterexample:
  "table held_world = Some [insert_row article2 quantum north, insert_row article1 quantum east] \<and>
   entry_id (insert_row article1 quantum east) = entry_id article1 \<and>
   length long_keyword = 300 \<and>
   fst (insert_article fine_env article1 long_keyword east held_world) = Inr False \<and>
   length [1, 0 :: real] = 2 \<and>
   fst (insert_article fine_env article1 quantum [1, 0] held_world) = Inr False"
proof -
  have "\<not> accepted (insert_row article1 long_keyword east)"
    using long_keyword_refused by (simp add: accepted_insert_row fits_def)
  moreover have "\<not> accepted (insert_row article1 quantum [1, 0])"
    by (simp add: accepted_insert_row)
  ultimately show ?thesis
    by (simp add: insert_article_result [OF held_world_fields(2)] held_world_fields
        insert_row_def long_keyword_def)
qed

text \<open>The first article is inserted into the empty table, and again under another keyword
  and embedding: both inserts return \<^verbatim>\<open>True\<close> and the table keeps the one row of the
  first. On the table that holds both articles, a keyword of 255 letters and five spaces
  is taken, a keyword of 300 letters is refused, and the table stays as it is.\<close>

theorem upsert_conflict_ignore_witness:
  "table fresh_world = Some [] \<and>
   fst (insert_article fine_env article1 quantum east fresh_world) = Inr True \<and>
   table (snd (insert_article fine_env article1 quantum east fresh_world))
     = Some [insert_row article1 quantum east] \<and>
   fst (insert_article fine_env article1 (lit ''surface codes'') north
          (snd (insert_article fine_env article1 quantum east fresh_world))) = Inr True \<and>
   table (snd (insert_article fine_env article1 (lit ''surface codes'') north
          (snd (insert_article fine_env article1 quantum east fresh_world))))
     = Some [insert_row article1 quantum east] \<and>
   length (filter (\<lambda>r. entry_id r = entry_id article1) [insert_row article1 quantum east]) = 1 \<and>
   fst (insert_article fine_env article1 padded_keyword north held_world) = Inr True \<and>
   table (snd (insert_article fine_env article1 padded_keyword north held_world))
     = table held_world \<and>
   fst (insert_article fine_env article1 long_keyword north held_world) = Inr False \<and>
   table (snd (insert_article fine_env article1 long_keyword north held_world))
     = table held_world"
proof -
  have stored: "(insert_row article1 quantum east)
      \<lparr>entry_id := entry_id article1, published := published article1,
        row_keyword := quantum\<rparr> = insert_row article1 quantum east"
    by (simp add: insert_row_def)
  have first: "table (snd (insert_article fine_env article1 quantum east fresh_world))
     = Some [insert_row article1 quantum east]"
    by (simp add: insert_article_result [OF fresh_world_fields(2)] fine_env_db
        accepted_insert_row fits_def article1_lengths keyword_lengths vector_lengths stored)
  have present: "entry_id article1 \<in>
      set (map entry_id [insert_row article2 quantum north, insert_row article1 quantum east])"
    by (simp add: insert_row_def)
  have uniq: "distinct
      (map entry_id [insert_row article2 quantum north, insert_row article1 quantum east])"
    using article_ids_differ by (simp add: insert_row_def)
  note fresh = upsert_conflict_ignore
      [where w = fresh_world and rows = "[]" and a = article1 and a' = article1
         and env = fine_env and kw = quantum and emb = east
         and kw' = "lit ''surface codes''" and emb' = north,
       OF fresh_world_fields(2) _ article1_lengths(1) refl]
  note padded = upsert_conflict_ignore
      [where w = held_world and a = article1 and a' = article1
         and env = fine_env and kw = padded_keyword and emb = north
         and kw' = quantum and emb' = east,
       OF held_world_fields(2) uniq article1_lengths(1) refl, THEN conjunct1]
     upsert_conflict_ignore
      [where w = held_world and a = article1 and a' = article1
         and env = fine_env and kw = padded_keyword and emb = north
         and kw' = quantum and emb' = east,
       OF held_world_fields(2) uniq article1_lengths(1) refl, THEN conjunct2, THEN conjunct1]
  note long = upsert_conflict_ignore
      [where w = held_world and a = article1 and a' = article1
         and env = fine_env and kw = long_keyword and emb = north
         and kw' = quantum and emb' = east,
       OF held_world_fields(2) uniq article1_lengths(1) refl, THEN conjunct1]
     upsert_conflict_ignore
      [where w = held_world and a = article1 and a' = article1
         and env = fine_env and kw = long_keyword and emb = north
         and kw' = quantum and emb' = east,
       OF held_world_fields(2) uniq article1_lengths(1) refl, THEN conjunct2, THEN conjunct1]
  have one: "fst (insert_article fine_env article1 quantum east fresh_world) = Inr True"
    using fresh [THEN conjunct2, THEN conjunct1]
    by (simp add: fine_env_db article1_lengths keyword_lengths vector_lengths)
  have two: "fst (insert_article fine_env article1 (lit ''surface codes'') north
          (snd (insert_article fine_env article1 quantum east fresh_world))) = Inr True"
    using upsert_conflict_ignore
      [where w = "snd (insert_article fine_env article1 quantum east fresh_world)"
         and rows = "[insert_row article1 quantum east]" and a = article1 and a' = article1
         and env = fine_env and kw = "lit ''surface codes''" and emb = north
         and kw' = quantum and emb' = east,
       OF first _ article1_lengths(1) refl, THEN conjunct2, THEN conjunct1]
    by (simp add: fine_env_db article1_lengths keyword_lengths vector_lengths)
  have same: "table (snd (insert_article fine_env article1 (lit ''surface codes'') north
          (snd (insert_article fine_env article1 quantum east fresh_world))))
     = Some [insert_row article1 quantum east]"
    using fresh [THEN conjunct2, THEN conjunct2] one two first by auto
  have count: "length (filter (\<lambda>r. entry_id r = entry_id article1)
      [insert_row article1 quantum east]) = 1"
    using fresh [THEN conjunct2, THEN conjunct2] one two first by auto
  have p1: "fst (insert_article fine_env article1 padded_keyword north held_world) = Inr True"
    using padded(2)
    by (simp add: fine_env_db article1_lengths vector_lengths padded_keyword_fits)
  have p2: "table (snd (insert_article fine_env article1 padded_keyword north held_world))
     = table held_world"
    using padded(1) [THEN mp, OF present] by (simp add: held_world_fields)
  have l1: "fst (insert_article fine_env article1 long_keyword north held_world) = Inr False"
    using long(2) long_keyword_refused by simp
  have l2: "table (snd (insert_article fine_env article1 long_keyword north held_world))
     = table held_world"
    using long(1) [THEN mp, OF present] by (simp add: held_world_fields)
  show ?thesis
    using one first two same count p1 p2 l1 l2 by (simp add: fresh_world_fields)
qed

lemma ranking_env_fields:
  "embed_api ranking_env h s = Inr east"
  "db_api ranking_env h st = Done"
  "distance ranking_env u v = (if u = v then 0 else 1)"
  by (simp_all add: ranking_env_def fine_env_def)

lemma north_not_east: "north \<noteq> east"
  by (simp add: east_def north_def)

lemma held_rows:
  "row_keyword (insert_row a kw emb) = kw"
  "row_embedding (insert_row a kw emb) = emb"
  "title (insert_row a kw emb) = title a"
  "summary (insert_row a kw emb) = summary a"
  by (simp_all add: insert_row_def)

lemma article_texts:
  "title article1 = lit ''Quantum error correction''"
  "summary article1 = lit ''We study stabilizer codes.''"
  "title article2 = lit ''Surface codes''"
  "summary article2 = lit ''A threshold for surface codes.''"
  by (simp_all add: article1_def article2_def direct_article_def result1_def result2_def)

text \<open>Both stored rows are neighbours of the title: the nearer one, stored second, comes
  first, and the line of dashes stands between the two parts. With the database or the
  embedding service unreachable, and under a keyword with no row, the context is empty.\<close>

theorem get_context_for_summary_contract_witness:
  "embed_api ranking_env (trace held_world) (title article1) = Inr east \<and>
   table held_world = Some [insert_row article2 quantum north, insert_row article1 quantum east] \<and>
   db_api ranking_env (trace held_world @ [Embed (title article1)])
     (SelectSimilar east quantum 3) = Done \<and>
   fst (retrieve_relevant_articles ranking_env (title article1) quantum 3 held_world)
     = Inr [to_hit ranking_env east (insert_row article1 quantum east),
            to_hit ranking_env east (insert_row article2 quantum north)] \<and>
   fst (get_context_for_summary ranking_env (title article1) quantum held_world)
     = Inr (lit ''Titre: Quantum error correction'' @ [10] @ lit ''R'' @ [233] @ lit ''sum''
            @ [233] @ lit '': We study stabilizer codes.'' @ [10]
            @ [10] @ lit ''---'' @ [10]
            @ lit ''Titre: Surface codes'' @ [10] @ lit ''R'' @ [233] @ lit ''sum''
            @ [233] @ lit '': A threshold for surface codes.'' @ [10]) \<and>
   trace (snd (get_context_for_summary ranking_env (title article1) quantum held_world))
     = [Embed (title article1), Db (SelectSimilar east quantum 3)] \<and>
   isl (fst (db_run db_down_env (SelectSimilar [1, 0] quantum 3)
               (sem_similar db_down_env [1, 0] quantum 3)
               (log_event (Embed (title article1)) held_world))) \<and>
   fst (get_context_for_summary db_down_env (title article1) quantum held_world) = Inr [] \<and>
   embed_api embed_down_env (trace held_world) (title article1) = Inl timeout_error \<and>
   fst (get_context_for_summary embed_down_env (title article1) quantum held_world) = Inr [] \<and>
   trace (snd (get_context_for_summary embed_down_env (title article1) quantum held_world))
     = [Embed (title article1)] \<and>
   fst (get_context_for_summary ranking_env (title article1) (lit ''topology'') held_world)
     = Inr []"
proof -
  have emb: "embed_api db_down_env h s = Inr [1, 0]"
    "embed_api embed_down_env h s = Inl timeout_error" for h s
    by (simp_all add: fine_env_def db_down_env_def embed_down_env_def)
  have db: "db_api db_down_env h s = FailBefore connection_refused" for h s
    by (simp add: db_down_env_def)
  have raised: "isl (fst (db_run db_down_env s sem w))"
    for s w and sem :: "row list option \<Rightarrow> exn + row list option \<times> hit list"
    by (simp add: db_run_def Let_def db)
  have other: "lit ''topology'' \<noteq> quantum"
    by (simp add: quantum_def lit_def)
  have hit_texts:
    "title (to_hit env q r) = title r" "summary (to_hit env q r) = summary r" for env q r
    by (simp_all add: to_hit_def)
  from get_context_for_summary_contract [of ranking_env "title article1" quantum held_world]
  obtain hits w' where
    r: "retrieve_relevant_articles ranking_env (title article1) quantum 3 held_world
          = (Inr hits, w')"
    and g: "get_context_for_summary ranking_env (title article1) quantum held_world
       = (Inr (case hits of
                 [] \<Rightarrow> []
               | h # hs \<Rightarrow>
                   lit ''Titre: '' @ title h @ [10] @ lit ''R'' @ [233] @ lit ''sum'' @ [233]
                   @ lit '': '' @ summary h @ [10]
                   @ concat (map (\<lambda>n. [10] @ lit ''---'' @ [10]
                                    @ lit ''Titre: '' @ title n @ [10] @ lit ''R'' @ [233]
                                    @ lit ''sum'' @ [233] @ lit '': '' @ summary n @ [10]) hs)),
          w')"
    and tr: "trace w' = [Embed (title article1), Db (SelectSimilar east quantum 3)]"
    and hs: "hits = [to_hit ranking_env east (insert_row article1 quantum east),
                     to_hit ranking_env east (insert_row article2 quantum north)]"
    by (clarsimp simp: ranking_env_fields held_world_fields held_rows vector_lengths
          north_not_east)
  have one: "fst (get_context_for_summary ranking_env (title article1) quantum held_world)
     = Inr (lit ''Titre: Quantum error correction'' @ [10] @ lit ''R'' @ [233] @ lit ''sum''
            @ [233] @ lit '': We study stabilizer codes.'' @ [10]
            @ [10] @ lit ''---'' @ [10]
            @ lit ''Titre: Surface codes'' @ [10] @ lit ''R'' @ [233] @ lit ''sum''
            @ [233] @ lit '': A threshold for surface codes.'' @ [10])"
    unfolding g hs by (simp add: hit_texts held_rows article_texts lit_def)
  from get_context_for_summary_contract [of db_down_env "title article1" quantum held_world]
  have two: "fst (get_context_for_summary db_down_env (title article1) quantum held_world) = Inr []"
    by (auto simp: emb raised)
  from get_context_for_summary_contract [of embed_down_env "title article1" quantum held_world]
  have three: "fst (get_context_for_summary embed_down_env (title article1) quantum held_world) = Inr []"
    "trace (snd (get_context_for_summary embed_down_env (title article1) quantum held_world))
     = [Embed (title article1)]"
    by (auto simp: emb held_world_fields)
  from get_context_for_summary_contract [of ranking_env "title article1" "lit ''topology''" held_world]
  have four: "fst (get_context_for_summary ranking_env (title article1) (lit ''topology'') held_world)
     = Inr []"
    using other by (auto simp: ranking_env_fields held_world_fields held_rows)
  show ?thesis
    using r g tr hs one two three four raised
    by (simp add: ranking_env_fields held_world_fields emb)
qed

text \<open>C4 as stated fails: for the same arXiv result the MCP article has a key the direct
  article has not; and asked for 60 results the direct path asks arXiv for 60 and returns
  its results, where the MCP path makes no search and returns the empty list.\<close>

theorem search_paths_differ_counterexample:
  "fst (search_arxiv fine_env quantum 7 fresh_world)
     = Inr [direct_article result1, direct_article result2] \<and>
   fst (search_arxiv_sync fine_env quantum 7 fresh_world)
     = Inr [mcp_article result1, mcp_article result2] \<and>
   article_keys (direct_article result1)
     = [''title'', ''authors'', ''summary'', ''published'', ''pdf_url'', ''entry_id'',
        ''categories''] \<and>
   article_keys (mcp_article result1)
     = [''title'', ''authors'', ''summary'', ''published'', ''pdf_url'', ''entry_id'',
        ''categories'', ''primary_category''] \<and>
   article_keys (mcp_article result1) \<noteq> article_keys (direct_article result1) \<and>
   fst (search_arxiv fine_env quantum 60 fresh_world)
     = Inr [direct_article result1, direct_article result2] \<and>
   trace (snd (search_arxiv fine_env quantum 60 fresh_world)) = [Search quantum 60] \<and>
   fst (search_arxiv_sync fine_env quantum 60 fresh_world) = Inr [] \<and>
   trace (snd (search_arxiv_sync fine_env quantum 60 fresh_world)) = [McpSession, McpCallTool]"
  by (simp add: search_arxiv_def search_arxiv_sync_def client_search_arxiv_def call_tool_def
        valid_arguments_def search_arxiv_tool_def arxiv_search_def io_defs Let_def log_event_def
        fine_env_fields fresh_world_fields strip_quantum article_keys_def
        mcp_article_def direct_article_def)

text \<open>The handler alone turns 60 into 50. Asked for 7 results both paths ask arXiv for 7;
  asked for 0, or with an empty keyword, the MCP path makes no search, and the direct
  path asks arXiv for 0.\<close>

theorem search_paths_related_witness:
  "quantum \<noteq> [] \<and>
   mcp_session_api fine_env (trace fresh_world) = Done \<and>
   mcp_call_api fine_env (trace fresh_world @ [McpSession]) = None \<and>
   search_arxiv_tool fine_env \<lparr>arg_keyword = Some quantum, arg_max_results = Some 60\<rparr>
     fresh_world
     = (Inr (ReplySuccess quantum 2 [mcp_article result1, mcp_article result2]),
        log_event (Search quantum 50) fresh_world) \<and>
   fst (search_arxiv_sync fine_env quantum 7 fresh_world)
     = Inr [mcp_article result1, mcp_article result2] \<and>
   trace (snd (search_arxiv_sync fine_env quantum 7 fresh_world))
     = [McpSession, McpCallTool, Search quantum 7] \<and>
   fst (search_arxiv_sync fine_env quantum 0 fresh_world) = Inr [] \<and>
   trace (snd (search_arxiv_sync fine_env quantum 0 fresh_world)) = [McpSession, McpCallTool] \<and>
   fst (search_arxiv_sync fine_env [] 7 fresh_world) = Inr [] \<and>
   trace (snd (search_arxiv_sync fine_env [] 7 fresh_world)) = [McpSession, McpCallTool] \<and>
   fst (search_arxiv fine_env quantum 7 fresh_world)
     = Inr [direct_article result1, direct_article result2] \<and>
   trace (snd (search_arxiv fine_env quantum 0 fresh_world)) = [Search quantum 0]"
  using search_paths_related
      [where r = result1 and env = fine_env and kw = quantum and n = 60 and w = fresh_world]
    search_paths_related
      [where r = result1 and env = fine_env and kw = quantum and n = 7 and w = fresh_world]
    search_paths_related
      [where r = result1 and env = fine_env and kw = quantum and n = 0 and w = fresh_world]
    search_paths_related
      [where r = result1 and env = fine_env and kw = "[]" and n = 7 and w = fresh_world]
  by (simp add: fine_env_fields fresh_world_fields strip_quantum log_event_def)

end
